theory Spec2Isabelle
  imports Main "HOL-Library.Sublist"
begin

section \<open>Text and SQL primitives\<close>

text \<open>
  Text is modelled as \<^typ>\<open>string\<close>, one \<^typ>\<open>char\<close> per character: the model covers
  single-byte text, on which PostgreSQL's \<open>char_length\<close> and JavaScript's \<open>.length\<close>
  both count the elements of the list. \<open>lower\<close> (PostgreSQL) and \<open>toLowerCase\<close>
  (JavaScript) map the letters \<open>A\<close>..\<open>Z\<close> to \<open>a\<close>..\<open>z\<close> and leave every other
  character alone.
\<close>

definition lower_char :: "char \<Rightarrow> char" where
  "lower_char c =
     (case map_of (zip ''ABCDEFGHIJKLMNOPQRSTUVWXYZ'' ''abcdefghijklmnopqrstuvwxyz'') c of
        Some l \<Rightarrow> l
      | None \<Rightarrow> c)"

definition lower :: "string \<Rightarrow> string" where
  "lower s = map lower_char s"

text \<open>The bracket expression \<open>[a-zA-Z0-9_.]\<close>, by its ranges.\<close>

definition username_char :: "char \<Rightarrow> bool" where
  "username_char c =
     (let n = (of_char c :: nat) in
        (97 \<le> n \<and> n \<le> 122) \<or> (65 \<le> n \<and> n \<le> 90) \<or> (48 \<le> n \<and> n \<le> 57) \<or>
        c = CHR ''_'' \<or> c = CHR ''.'')"

text \<open>
  The regular expression \<open>^[a-zA-Z0-9_.]+$\<close>, as PostgreSQL's \<open>~\<close> and JavaScript's
  \<open>RegExp.test\<close> both read it: the whole text, one or more characters of the class.
\<close>

definition matches_username_pattern :: "string \<Rightarrow> bool" where
  "matches_username_pattern s = (s \<noteq> [] \<and> list_all username_char s)"

text \<open>JavaScript's \<open>String.prototype.includes\<close>: some suffix starts with the needle.\<close>

definition js_includes :: "string \<Rightarrow> string \<Rightarrow> bool" where
  "js_includes s needle = list_ex (\<lambda>t. prefix needle t) (suffixes s)"

text \<open>
  JavaScript truthiness of an optional string (\<open>undefined\<close>/\<open>null\<close> is \<open>None\<close>): the
  empty string is falsy.
\<close>

definition truthy :: "string option \<Rightarrow> bool" where
  "truthy v = (case v of None \<Rightarrow> False | Some s \<Rightarrow> s \<noteq> [])"

text \<open>
  SQL values are nullable: \<open>NULL\<close> is \<open>None\<close>. Comparisons are three-valued, and an
  \<open>IF\<close> or a \<open>WHERE\<close> takes its branch only when the condition is true (not when it is
  \<open>NULL\<close>).
\<close>

definition char_length :: "string option \<Rightarrow> nat option" where
  "char_length s = map_option length s"

definition lower_sql :: "string option \<Rightarrow> string option" where
  "lower_sql s = map_option lower s"

definition sql_lt :: "nat option \<Rightarrow> nat option \<Rightarrow> bool option" where
  "sql_lt a b = (case (a, b) of (Some x, Some y) \<Rightarrow> Some (x < y) | _ \<Rightarrow> None)"

definition sql_gt :: "nat option \<Rightarrow> nat option \<Rightarrow> bool option" where
  "sql_gt a b = (case (a, b) of (Some x, Some y) \<Rightarrow> Some (y < x) | _ \<Rightarrow> None)"

definition sql_eq :: "'a option \<Rightarrow> 'a option \<Rightarrow> bool option" where
  "sql_eq a b = (case (a, b) of (Some x, Some y) \<Rightarrow> Some (x = y) | _ \<Rightarrow> None)"

definition sql_ne :: "'a option \<Rightarrow> 'a option \<Rightarrow> bool option" where
  "sql_ne a b = (case (a, b) of (Some x, Some y) \<Rightarrow> Some (x \<noteq> y) | _ \<Rightarrow> None)"

definition sql_and :: "bool option \<Rightarrow> bool option \<Rightarrow> bool option" where
  "sql_and a b =
     (if a = Some False \<or> b = Some False then Some False
      else if a = Some True \<and> b = Some True then Some True
      else None)"

definition sql_not_match_username :: "string option \<Rightarrow> bool option" where
  "sql_not_match_username s = map_option (\<lambda>t. \<not> matches_username_pattern t) s"

definition is_true :: "bool option \<Rightarrow> bool" where
  "is_true b = (b = Some True)"

section \<open>Profiles and roles\<close>

type_synonym uuid = string

text \<open>
  A row of \<open>public.profiles\<close>, with the columns the sources read and write
  (\<open>UserProfile\<close>, the select list of \<open>ProfilePage\<close>, the \<open>is_totp_enabled\<close> column the
  migration adds). \<open>id\<close> is the key and \<open>is_totp_enabled\<close> is \<open>NOT NULL\<close>; every other
  column is nullable.
\<close>

record profile =
  profile_id :: uuid
  email :: "string option"
  created_at :: "string option"
  username :: "string option"
  full_name :: "string option"
  avatar_url :: "string option"
  status :: "string option"
  role :: "string option"
  is_totp_enabled :: bool

text \<open>
  What \<open>useUser()\<close> hands to its callers, as far as \<open>useAuth\<close> and
  \<open>UserManagementPage\<close> read it: the authenticated user's id, the profile, and the
  loading flag.
\<close>

record UserContext =
  ctx_user :: "uuid option"
  ctx_profile :: "profile option"
  ctx_isLoadingAuth :: bool

record AuthInfo =
  authUser :: "uuid option"
  authProfile :: "profile option"
  isLoadingAuth :: bool
  authRole :: "string option"
  isUser :: bool
  isModerator :: bool
  isAdmin :: bool
  isSuperAdmin :: bool
  canModerate :: bool
  canAdminister :: bool

text \<open>\<open>useAuth\<close>: \<open>role = context.profile?.role ?? null\<close>, then strict equality tests.\<close>

definition useAuth :: "UserContext \<Rightarrow> AuthInfo" where
  "useAuth context =
     (let r = (case ctx_profile context of None \<Rightarrow> None | Some p \<Rightarrow> role p);
          is_user = (r = Some ''USER'');
          is_moderator = (r = Some ''MODERATOR'');
          is_admin = (r = Some ''ADMIN'');
          is_super_admin = (r = Some ''SUPER_ADMIN'');
          can_moderate = (is_moderator \<or> is_admin \<or> is_super_admin);
          can_administer = (is_admin \<or> is_super_admin)
      in \<lparr> authUser = ctx_user context,
           authProfile = ctx_profile context,
           isLoadingAuth = ctx_isLoadingAuth context,
           authRole = r,
           isUser = is_user,
           isModerator = is_moderator,
           isAdmin = is_admin,
           isSuperAdmin = is_super_admin,
           canModerate = can_moderate,
           canAdminister = can_administer \<rparr>)"

text \<open>
  The role check of \<open>UserManagementPage\<close>'s effect, on the same context: what the effect
  decides to do.
\<close>

datatype page_decision = FetchUsers | AccessDenied | NotAuthenticated | AuthLoading | NoAction

definition page_role_check :: "UserContext \<Rightarrow> page_decision" where
  "page_role_check context =
     (if \<not> ctx_isLoadingAuth context \<and> ctx_user context \<noteq> None \<and> ctx_profile context \<noteq> None then
        (case ctx_profile context of
           None \<Rightarrow> NoAction
         | Some p \<Rightarrow>
             if role p = Some ''admin'' \<or> role p = Some ''SUPER_ADMIN'' then FetchUsers
             else AccessDenied)
      else if \<not> ctx_isLoadingAuth context \<and> ctx_user context = None then NotAuthenticated
      else if ctx_isLoadingAuth context then AuthLoading
      else NoAction)"

text \<open>A loaded context whose profile carries the given role.\<close>

definition loaded_context :: "string option \<Rightarrow> UserContext" where
  "loaded_context r =
     \<lparr> ctx_user = Some ''u1'',
       ctx_profile = Some \<lparr> profile_id = ''u1'', email = None, created_at = None,
         username = Some ''alice'', full_name = None, avatar_url = None,
         status = Some ''approved'', role = r, is_totp_enabled = False \<rparr>,
       ctx_isLoadingAuth = False \<rparr>"

section \<open>The RPCs on \<open>public.profiles\<close>\<close>

datatype rpc_error =
    UsernameTooShort
  | UsernameTooLong
  | UsernameInvalidChars
  | UsernameTaken
  | ProfileNotFound
  | NotNullViolation

text \<open>
  \<open>update_username(new_username TEXT)\<close>. The table is the list of its rows and
  \<open>current_user_id\<close> is \<open>auth.uid()\<close>, \<open>NULL\<close> for a caller that is not signed in.
  The function returns the table after the call and either the exception raised or the
  row of \<open>RETURNING * INTO updated_profile\<close>: the first updated row, \<open>NULL\<close> when the
  \<open>UPDATE\<close> touched none. An exception aborts the statement, so the table is the
  one before the call.
\<close>

definition update_username ::
  "profile list \<Rightarrow> uuid option \<Rightarrow> string option \<Rightarrow> profile list \<times> (rpc_error + profile option)"
where
  "update_username profiles current_user_id new_username =
     (if is_true (sql_lt (char_length new_username) (Some 3)) then
        (profiles, Inl UsernameTooShort)
      else if is_true (sql_gt (char_length new_username) (Some 30)) then
        (profiles, Inl UsernameTooLong)
      else if is_true (sql_not_match_username new_username) then
        (profiles, Inl UsernameInvalidChars)
      else if list_ex
          (\<lambda>p. is_true (sql_and
                  (sql_eq (lower_sql (username p)) (lower_sql new_username))
                  (sql_ne (Some (profile_id p)) current_user_id)))
          profiles then
        (profiles, Inl UsernameTaken)
      else
        (let hit = (\<lambda>p. is_true (sql_eq (Some (profile_id p)) current_user_id));
             set_username = (\<lambda>p. p\<lparr>username := new_username\<rparr>)
         in (map (\<lambda>p. if hit p then set_username p else p) profiles,
             Inr (case filter hit profiles of
                    [] \<Rightarrow> None
                  | p # _ \<Rightarrow> Some (set_username p)))))"

text \<open>
  \<open>set_totp_enabled(p_is_enabled BOOLEAN)\<close>: the \<open>UPDATE\<close>, then \<open>IF NOT FOUND\<close>.
  The column is \<open>NOT NULL\<close>, so writing \<open>NULL\<close> into a row fails.
\<close>

definition set_totp_enabled ::
  "profile list \<Rightarrow> uuid option \<Rightarrow> bool option \<Rightarrow> profile list \<times> (rpc_error + unit)"
where
  "set_totp_enabled profiles current_user_id p_is_enabled =
     (let hit = (\<lambda>p. is_true (sql_eq (Some (profile_id p)) current_user_id)) in
        if \<not> list_ex hit profiles then (profiles, Inl ProfileNotFound)
        else
          (case p_is_enabled of
             None \<Rightarrow> (profiles, Inl NotNullViolation)
           | Some b \<Rightarrow>
               (map (\<lambda>p. if hit p then p\<lparr>is_totp_enabled := b\<rparr> else p) profiles, Inr ())))"

text \<open>
  Usernames pairwise distinct ignoring letter case: no two rows of the table hold
  usernames with the same lower-case form. A \<open>NULL\<close> username equals nothing.
\<close>

definition same_username_ci :: "profile \<Rightarrow> profile \<Rightarrow> bool" where
  "same_username_ci p q = is_true (sql_eq (lower_sql (username p)) (lower_sql (username q)))"

fun usernames_distinct_ci :: "profile list \<Rightarrow> bool" where
  "usernames_distinct_ci [] = True"
| "usernames_distinct_ci (p # ps) =
     (list_all (\<lambda>q. \<not> same_username_ci p q) ps \<and> usernames_distinct_ci ps)"

text \<open>A row with a given id and username, and a table of three rows.\<close>

definition row :: "uuid \<Rightarrow> string option \<Rightarrow> profile" where
  "row i n =
     \<lparr> profile_id = i, email = None, created_at = None, username = n, full_name = None,
       avatar_url = None, status = Some ''approved'', role = Some ''user'',
       is_totp_enabled = False \<rparr>"

definition profiles3 :: "profile list" where
  "profiles3 = [row ''u1'' (Some ''bob''), row ''u2'' (Some ''Carol''), row ''u3'' None]"

section \<open>The username form's schema\<close>

text \<open>
  \<open>usernameFormSchema\<close> of \<open>UsernameEditForm\<close>: \<open>z.string().min(3).max(30).regex(...)\<close>.
  Every check of the chain runs on the text and adds its issue; the schema accepts the
  text when no check raised one.
\<close>

datatype zod_issue = TooSmall | TooBig | InvalidString

definition usernameFormSchema :: "string \<Rightarrow> zod_issue list" where
  "usernameFormSchema v =
     (if length v < 3 then [TooSmall] else []) @
     (if length v > 30 then [TooBig] else []) @
     (if \<not> matches_username_pattern v then [InvalidString] else [])"

definition schema_accepts :: "string \<Rightarrow> bool" where
  "schema_accepts v = (usernameFormSchema v = [])"

section \<open>Replies of the backend\<close>

text \<open>
  An error object as the backend's clients return or throw it, with the fields the
  sources read.
\<close>

record js_error =
  err_message :: "string option"
  err_code :: "string option"
  err_details :: "string option"
  err_status :: "nat option"

text \<open>
  A call of the client library resolves to \<open>{ data, error }\<close> or rejects. \<open>settle\<close> is
  the idiom \<open>const { data, error } = await call(); if (error) throw error;\<close>.
\<close>

datatype 'a reply = Data 'a | Error js_error

datatype 'a awaited = Resolved 'a | Rejected js_error

definition settle :: "'a reply awaited \<Rightarrow> js_error + 'a" where
  "settle r =
     (case r of
        Resolved (Data x) \<Rightarrow> Inr x
      | Resolved (Error e) \<Rightarrow> Inl e
      | Rejected e \<Rightarrow> Inl e)"

section \<open>The TOTP setup dialog\<close>

datatype step = Enroll | Verify | RecoveryCodes | Completed

text \<open>
  The argument of \<open>setError\<close>: the error's own message, or one of the fixed texts of the
  dialog. All of them are non-empty texts.
\<close>

datatype error_text = ErrorMessage string | EnrollFailed | CodeRequired | VerifyFailed

definition message_or :: "js_error \<Rightarrow> error_text \<Rightarrow> error_text" where
  "message_or e fallback =
     (case err_message e of
        None \<Rightarrow> fallback
      | Some m \<Rightarrow> if m = [] then fallback else ErrorMessage m)"

datatype toast =
    ToastPartialEnable
  | ToastEnabled
  | ToastEnabledKeepCodes
  | ToastCodeRequired
  | ToastNoFactor
  | ToastInvalidCode
  | ToastPartialDisable
  | ToastDisabled
  | ToastSecurity
  | ToastError "string option"

text \<open>What a handler does to the outside: calls of the backend and notifications.\<close>

datatype action =
    MfaEnroll
  | MfaChallenge string
  | MfaVerify string string string
  | MfaListFactors
  | MfaChallengeAndVerify string string
  | MfaUnenroll string
  | RpcSetTotpEnabled bool
  | RefreshCurrentUserProfile
  | ShowToast toast
  | OnSetupComplete
  | OnOpenChange bool

text \<open>
  A call of the backend that the dialog awaits: the enrollment the effect started, or a
  verification, with the \<open>factorId\<close> and the code of the render its button was clicked
  in.
\<close>

datatype pending_call = EnrollRequest | VerifyRequest string string

text \<open>
  The state of \<open>TotpSetupDialog\<close>, with the \<open>isOpen\<close> prop its parent holds
  (\<open>isTotpSetupDialogOpen\<close> of \<open>ProfilePage\<close>; \<open>onOpenChange\<close> sets it and
  \<open>onSetupComplete\<close> clears it), and the calls that are awaited. The component stays
  mounted while the dialog is closed, so an awaited call is answered whether the dialog
  is open or not.
\<close>

record dialog =
  isOpen :: bool
  isLoading :: bool
  error :: "error_text option"
  factorId :: "string option"
  qrCodeSvg :: "string option"
  secretKey :: "string option"
  verificationCode :: string
  step :: step
  recoveryCodes :: "string list"
  pending :: "pending_call list"

definition initial_dialog :: dialog where
  "initial_dialog =
     \<lparr> isOpen = False, isLoading = False, error = None, factorId = None, qrCodeSvg = None,
       secretKey = None, verificationCode = [], step = Enroll, recoveryCodes = [],
       pending = [] \<rparr>"

definition resetDialogState :: "dialog \<Rightarrow> dialog" where
  "resetDialogState d =
     d\<lparr> isLoading := False, error := None, factorId := None, qrCodeSvg := None,
        secretKey := None, verificationCode := [], step := Enroll, recoveryCodes := [] \<rparr>"

record enroll_data =
  enroll_id :: string
  qr_code :: string
  secret :: string

text \<open>
  The effect on \<open>[isOpen, step]\<close>, up to its \<open>await\<close>: with the dialog open in the step
  \<open>enroll\<close> it starts \<open>enrollTotp\<close>, which sets the loading flag, clears the error and
  calls \<open>supabase.auth.mfa.enroll\<close>; with the dialog closed it resets the state unless
  the step is \<open>recoveryCodes\<close> or \<open>completed\<close>.
\<close>

definition enroll_effect :: "dialog \<Rightarrow> dialog \<times> action list" where
  "enroll_effect d =
     (if isOpen d \<and> step d = Enroll then
        (d\<lparr> isLoading := True, error := None, pending := pending d @ [EnrollRequest] \<rparr>,
         [MfaEnroll])
      else if \<not> isOpen d then
        (if step d \<noteq> RecoveryCodes \<and> step d \<noteq> Completed then (resetDialogState d, [])
         else (d, []))
      else (d, []))"

text \<open>
  \<open>enrollTotp\<close> after its \<open>await\<close>, on the state the component has when the reply
  arrives: the factor and the step \<open>verify\<close>, or the error; the loading flag is cleared.
\<close>

definition enrollTotp_resume :: "dialog \<Rightarrow> enroll_data reply awaited \<Rightarrow> dialog" where
  "enrollTotp_resume d r =
     (case settle r of
        Inr enrollData \<Rightarrow>
          d\<lparr> factorId := Some (enroll_id enrollData), qrCodeSvg := Some (qr_code enrollData),
             secretKey := Some (secret enrollData), step := Verify, isLoading := False \<rparr>
      | Inl err \<Rightarrow> d\<lparr> error := Some (message_or err EnrollFailed), isLoading := False \<rparr>)"

text \<open>
  The data of a successful \<open>verify\<close>, as \<open>handleVerifyCode\<close> reads it:
  \<open>recovery_codes\<close> and \<open>totp.recovery_codes\<close>, each possibly absent.
\<close>

record verify_data =
  recovery_codes :: "string list option"
  totp_recovery_codes :: "string list option"

text \<open>
  \<open>typedVerifyData.recovery_codes || (typedVerifyData.totp && typedVerifyData.totp.recovery_codes)\<close>:
  an array is truthy, also the empty one.
\<close>

definition codes_of :: "verify_data \<Rightarrow> string list option" where
  "codes_of v = (case recovery_codes v of Some cs \<Rightarrow> Some cs | None \<Rightarrow> totp_recovery_codes v)"

record verify_env =
  challenge_reply :: "string reply awaited"
  verify_reply :: "verify_data reply awaited"
  rpc_reply :: "unit reply awaited"
  refresh_reply :: "unit awaited"

text \<open>
  \<open>handleVerifyCode\<close> up to its first \<open>await\<close>: the guard, then the loading flag, the
  cleared error and the call of \<open>challenge\<close>. The request keeps the \<open>factorId\<close> and the
  code of this render.
\<close>

definition handleVerifyCode_start :: "dialog \<Rightarrow> dialog \<times> action list" where
  "handleVerifyCode_start d =
     (case factorId d of
        None \<Rightarrow> (d\<lparr> error := Some CodeRequired \<rparr>, [])
      | Some fid \<Rightarrow>
          if fid = [] \<or> length (verificationCode d) \<noteq> 6 then
            (d\<lparr> error := Some CodeRequired \<rparr>, [])
          else
            (d\<lparr> isLoading := True, error := None,
                pending := pending d @ [VerifyRequest fid (verificationCode d)] \<rparr>,
             [MfaChallenge fid]))"

text \<open>
  \<open>handleVerifyCode\<close> after the reply to \<open>challenge\<close>, with the replies to the calls it
  goes on to await: \<open>verify\<close>, the RPC \<open>set_totp_enabled(true)\<close> (whose error is only
  reported) and the refresh of the profile. It reads no state of the component: it
  writes, on the state the component has by then, either the recovery codes and the step
  \<open>recoveryCodes\<close>, or the step \<open>completed\<close>, or, for whatever was thrown on the way,
  the error; and it clears the loading flag.
\<close>

definition verify_failed :: "dialog \<Rightarrow> js_error \<Rightarrow> dialog" where
  "verify_failed d err = d\<lparr> error := Some (message_or err VerifyFailed), isLoading := False \<rparr>"

definition handleVerifyCode_resume ::
  "dialog \<Rightarrow> string \<Rightarrow> string \<Rightarrow> verify_env \<Rightarrow> dialog \<times> action list"
where
  "handleVerifyCode_resume d fid code env =
     (case settle (challenge_reply env) of
        Inl err \<Rightarrow> (verify_failed d err, [])
      | Inr challengeId \<Rightarrow>
     (let called = [MfaVerify fid challengeId code] in
      case settle (verify_reply env) of
        Inl err \<Rightarrow> (verify_failed d err, called)
      | Inr verifyData \<Rightarrow>
     (case rpc_reply env of
        Rejected err \<Rightarrow> (verify_failed d err, called @ [RpcSetTotpEnabled True])
      | Resolved rpc \<Rightarrow>
     (let reported = (case rpc of Error rpcError \<Rightarrow> [ShowToast ToastPartialEnable] | Data _ \<Rightarrow> []);
          done = called @ [RpcSetTotpEnabled True] @ reported @ [RefreshCurrentUserProfile]
      in case refresh_reply env of
        Rejected err \<Rightarrow> (verify_failed d err, done)
      | Resolved _ \<Rightarrow>
     (case codes_of verifyData of
        Some (c # cs) \<Rightarrow>
          (d\<lparr> recoveryCodes := c # cs, step := RecoveryCodes, isLoading := False \<rparr>, done)
      | _ \<Rightarrow>
          (d\<lparr> step := Completed, isLoading := False, isOpen := False \<rparr>,
           done @ [ShowToast ToastEnabled, OnSetupComplete]))))))"

definition handleRecoveryCodesSaved :: "dialog \<Rightarrow> dialog \<times> action list" where
  "handleRecoveryCodesSaved d =
     (d\<lparr> step := Completed, isOpen := False \<rparr>,
      [ShowToast ToastEnabledKeepCodes, OnSetupComplete, OnOpenChange False])"

text \<open>
  The \<open>onOpenChange\<close> the component passes to \<open>Dialog\<close>: the reset on closing, then the
  parent's \<open>onOpenChange\<close>.
\<close>

definition dialog_onOpenChange :: "dialog \<Rightarrow> bool \<Rightarrow> dialog \<times> action list" where
  "dialog_onOpenChange d opened =
     ((if \<not> opened \<and> step d \<noteq> Completed then resetDialogState d else d)\<lparr> isOpen := opened \<rparr>,
      [OnOpenChange opened])"

text \<open>
  The two buttons wrapped in \<open>DialogClose\<close>: their own \<open>onClick\<close>, then the dialog's
  \<open>onOpenChange(false)\<close> with the step of the render the click happened in.
\<close>

definition cancel_click :: "dialog \<Rightarrow> dialog \<times> action list" where
  "cancel_click d =
     (fst (dialog_onOpenChange d False), OnOpenChange False # snd (dialog_onOpenChange d False))"

definition close_click :: "dialog \<Rightarrow> dialog \<times> action list" where
  "close_click d =
     ((if step d \<noteq> Completed then resetDialogState (resetDialogState d) else resetDialogState d)
        \<lparr> isOpen := False \<rparr>,
      [OnOpenChange False, OnOpenChange False])"

text \<open>The regular expression \<open>\s\<close> on characters with codes below 256: tab, line feed,
  vertical tab, form feed and carriage return (codes 9 to 13), space (32) and no-break
  space (160).\<close>

definition js_space :: "char \<Rightarrow> bool" where
  "js_space c = (let n = (of_char c :: nat) in (9 \<le> n \<and> n \<le> 13) \<or> n = 32 \<or> n = 160)"

text \<open>\<open>onChange\<close> of the code field: \<open>e.target.value.replace(/\s/g, '')\<close>.\<close>

definition set_verificationCode :: "dialog \<Rightarrow> string \<Rightarrow> dialog" where
  "set_verificationCode d raw = d\<lparr> verificationCode := filter (\<lambda>c. \<not> js_space c) raw \<rparr>"

text \<open>
  \<open>renderContent\<close> and \<open>renderFooter\<close>: what the dialog shows, branch by branch. A
  recovery code is shown as its first four characters and the rest.
\<close>

datatype content =
    LoadingView
  | VerifyView string string string
  | RecoveryCodesView "(string \<times> string) list"
  | ErrorView error_text
  | NoContent

definition renderContent :: "dialog \<Rightarrow> content" where
  "renderContent d =
     (if isLoading d \<and> step d = Enroll then LoadingView
      else if step d = Verify \<and> truthy (qrCodeSvg d) \<and> truthy (secretKey d) then
        (case (qrCodeSvg d, secretKey d) of
           (Some q, Some k) \<Rightarrow> VerifyView q k (verificationCode d)
         | _ \<Rightarrow> NoContent)
      else if step d = RecoveryCodes \<and> length (recoveryCodes d) > 0 then
        RecoveryCodesView (map (\<lambda>code. (take 4 code, drop 4 code)) (recoveryCodes d))
      else
        (case error d of Some e \<Rightarrow> ErrorView e | None \<Rightarrow> NoContent))"

text \<open>The footers: the verify footer carries whether its verify button is disabled.\<close>

datatype footer = VerifyFooter bool | RecoveryFooter | ErrorFooter | NoFooter

definition renderFooter :: "dialog \<Rightarrow> footer" where
  "renderFooter d =
     (if step d = Verify then VerifyFooter (isLoading d \<or> length (verificationCode d) \<noteq> 6)
      else if step d = RecoveryCodes then RecoveryFooter
      else if error d \<noteq> None \<and> step d \<noteq> RecoveryCodes then ErrorFooter
      else NoFooter)"

text \<open>
  The events of the dialog. \<open>OpenDialog\<close> is the parent's
  \<open>setIsTotpSetupDialogOpen(true)\<close>, \<open>RunEffect\<close> a run of the effect, \<open>Answer n a\<close>
  the reply to the \<open>n\<close>-th awaited call, \<open>Dismiss\<close> the dialog's own
  \<open>onOpenChange(false)\<close> (escape key, click outside). A control can be used when the
  dialog is open and the render shows it; the cancel button of the verify footer is
  never disabled. A reply can arrive whenever its call is awaited.
\<close>

datatype answer = EnrollAnswer "enroll_data reply awaited" | VerifyAnswer verify_env

datatype event =
    OpenDialog
  | RunEffect
  | Answer nat answer
  | TypeCode string
  | ClickVerify
  | ClickCancel
  | ClickSaved
  | ClickClose
  | Dismiss

definition answers :: "pending_call \<Rightarrow> answer \<Rightarrow> bool" where
  "answers q a =
     (case (q, a) of
        (EnrollRequest, EnrollAnswer _) \<Rightarrow> True
      | (VerifyRequest _ _, VerifyAnswer _) \<Rightarrow> True
      | _ \<Rightarrow> False)"

definition enabled :: "dialog \<Rightarrow> event \<Rightarrow> bool" where
  "enabled d e =
     (case e of
        OpenDialog \<Rightarrow> True
      | RunEffect \<Rightarrow> True
      | Answer n a \<Rightarrow> n < length (pending d) \<and> answers (pending d ! n) a
      | TypeCode _ \<Rightarrow>
          isOpen d \<and> (case renderContent d of VerifyView _ _ _ \<Rightarrow> True | _ \<Rightarrow> False)
      | ClickVerify \<Rightarrow> isOpen d \<and> renderFooter d = VerifyFooter False
      | ClickCancel \<Rightarrow> isOpen d \<and> (case renderFooter d of VerifyFooter _ \<Rightarrow> True | _ \<Rightarrow> False)
      | ClickSaved \<Rightarrow> isOpen d \<and> renderFooter d = RecoveryFooter
      | ClickClose \<Rightarrow> isOpen d \<and> renderFooter d = ErrorFooter
      | Dismiss \<Rightarrow> isOpen d)"

text \<open>The reply to the \<open>n\<close>-th awaited call: the call is no longer awaited, and its handler
  goes on.\<close>

definition resume :: "dialog \<Rightarrow> nat \<Rightarrow> answer \<Rightarrow> dialog" where
  "resume d n a =
     (let d' = d\<lparr> pending := take n (pending d) @ drop (Suc n) (pending d) \<rparr> in
      case (pending d ! n, a) of
        (EnrollRequest, EnrollAnswer r) \<Rightarrow> enrollTotp_resume d' r
      | (VerifyRequest fid code, VerifyAnswer env) \<Rightarrow> fst (handleVerifyCode_resume d' fid code env)
      | _ \<Rightarrow> d)"

definition fire :: "dialog \<Rightarrow> event \<Rightarrow> dialog" where
  "fire d e =
     (if \<not> enabled d e then d
      else
        (case e of
           OpenDialog \<Rightarrow> d\<lparr> isOpen := True \<rparr>
         | RunEffect \<Rightarrow> fst (enroll_effect d)
         | Answer n a \<Rightarrow> resume d n a
         | TypeCode raw \<Rightarrow> set_verificationCode d raw
         | ClickVerify \<Rightarrow> fst (handleVerifyCode_start d)
         | ClickCancel \<Rightarrow> fst (cancel_click d)
         | ClickSaved \<Rightarrow> fst (handleRecoveryCodesSaved d)
         | ClickClose \<Rightarrow> fst (close_click d)
         | Dismiss \<Rightarrow> fst (dialog_onOpenChange d False)))"

definition run :: "event list \<Rightarrow> dialog" where
  "run es = foldl fire initial_dialog es"

section \<open>Disabling TOTP on the profile page\<close>

record profile_page =
  isDisablingTotp :: bool
  totpCodeForDisable :: string

record factor =
  factor_id :: string
  factor_status :: string

record disable_env =
  listFactors_reply :: "factor list reply awaited"
  challengeAndVerify_reply :: "unit reply awaited"
  unenroll_reply :: "unit reply awaited"
  disable_rpc_reply :: "unit reply awaited"
  disable_refresh_reply :: "unit awaited"

definition is_digit :: "char \<Rightarrow> bool" where
  "is_digit c = (c \<in> set ''0123456789'')"

text \<open>\<open>onChange\<close> of the code field: \<open>e.target.value.replace(/\D/g, '').slice(0,6)\<close>.\<close>

definition set_totpCodeForDisable :: "profile_page \<Rightarrow> string \<Rightarrow> profile_page" where
  "set_totpCodeForDisable p raw = p\<lparr> totpCodeForDisable := take 6 (filter is_digit raw) \<rparr>"

definition trim :: "string \<Rightarrow> string" where
  "trim s = rev (dropWhile js_space (rev (dropWhile js_space s)))"

text \<open>The toast the \<open>catch\<close> block of \<open>handleDisableTotp\<close> chooses for a thrown error.\<close>

definition disable_catch :: "js_error \<Rightarrow> toast" where
  "disable_catch err =
     (case err_message err of
        None \<Rightarrow> ToastError None
      | Some m \<Rightarrow>
          if m \<noteq> [] \<and> js_includes m ''AAL2 required'' then ToastSecurity
          else if m \<noteq> [] \<and>
            (js_includes (lower m) ''invalid totp code'' \<or>
             js_includes (lower m) ''verification failed'' \<or>
             err_code err = Some ''invalid_mfa_code'') then ToastInvalidCode
          else ToastError (if m \<noteq> [] then Some m else None))"

text \<open>
  \<open>handleDisableTotp\<close>. After the guard every path ends with the flag cleared and the
  code field emptied (the \<open>finally\<close> block, or the same two calls before a \<open>return\<close>).
\<close>

definition handleDisableTotp :: "profile_page \<Rightarrow> disable_env \<Rightarrow> profile_page \<times> action list" where
  "handleDisableTotp p env =
     (if trim (totpCodeForDisable p) = [] then (p, [ShowToast ToastCodeRequired])
      else
        (let finished = p\<lparr> isDisablingTotp := False, totpCodeForDisable := [] \<rparr> in
         case settle (listFactors_reply env) of
           Inl err \<Rightarrow> (finished, [MfaListFactors, ShowToast (disable_catch err)])
         | Inr factors \<Rightarrow>
        (case find (\<lambda>f. factor_status f = ''verified'') factors of
           None \<Rightarrow>
             (let called = [MfaListFactors, ShowToast ToastNoFactor, RpcSetTotpEnabled False] in
              case disable_rpc_reply env of
                Rejected err \<Rightarrow> (finished, called @ [ShowToast (disable_catch err)])
              | Resolved _ \<Rightarrow>
                  (case disable_refresh_reply env of
                     Rejected err \<Rightarrow>
                       (finished, called @ [RefreshCurrentUserProfile, ShowToast (disable_catch err)])
                   | Resolved _ \<Rightarrow> (finished, called @ [RefreshCurrentUserProfile])))
         | Some totpFactor \<Rightarrow>
        (let called = [MfaListFactors,
               MfaChallengeAndVerify (factor_id totpFactor) (totpCodeForDisable p)] in
         case challengeAndVerify_reply env of
           Rejected err \<Rightarrow> (finished, called @ [ShowToast (disable_catch err)])
         | Resolved (Error challengeError) \<Rightarrow> (finished, called @ [ShowToast ToastInvalidCode])
         | Resolved (Data _) \<Rightarrow>
        (let called = called @ [MfaUnenroll (factor_id totpFactor)] in
         case settle (unenroll_reply env) of
           Inl err \<Rightarrow> (finished, called @ [ShowToast (disable_catch err)])
         | Inr _ \<Rightarrow>
        (let called = called @ [RpcSetTotpEnabled False] in
         case disable_rpc_reply env of
           Rejected err \<Rightarrow> (finished, called @ [ShowToast (disable_catch err)])
         | Resolved rpc \<Rightarrow>
        (let called = called @
               [ShowToast (case rpc of Error rpcError \<Rightarrow> ToastPartialDisable | Data _ \<Rightarrow> ToastDisabled),
                RefreshCurrentUserProfile] in
         case disable_refresh_reply env of
           Rejected err \<Rightarrow> (finished, called @ [ShowToast (disable_catch err)])
         | Resolved _ \<Rightarrow> (finished, called))))))))"

text \<open>
  The button that calls \<open>handleDisableTotp\<close> (\<open>Oui, desactiver\<close>) is disabled while
  the flag is set or the code is blank; \<open>click_disable\<close> is a click on it, \<open>None\<close> when
  the button cannot be used.
\<close>

definition disable_button_disabled :: "profile_page \<Rightarrow> bool" where
  "disable_button_disabled p = (isDisablingTotp p \<or> trim (totpCodeForDisable p) = [])"

definition click_disable ::
  "profile_page \<Rightarrow> disable_env \<Rightarrow> (profile_page \<times> action list) option"
where
  "click_disable p env =
     (if disable_button_disabled p then None else Some (handleDisableTotp p env))"

text \<open>
  What an observer sees of a handler's run apart from the code itself: the state with the
  code blanked, in the code field and in the awaited calls, and the calls with the code
  argument blanked.
\<close>

definition redact :: "action \<Rightarrow> action" where
  "redact a =
     (case a of
        MfaVerify fid cid _ \<Rightarrow> MfaVerify fid cid []
      | MfaChallengeAndVerify fid _ \<Rightarrow> MfaChallengeAndVerify fid []
      | _ \<Rightarrow> a)"

definition redact_request :: "pending_call \<Rightarrow> pending_call" where
  "redact_request q = (case q of EnrollRequest \<Rightarrow> EnrollRequest | VerifyRequest fid _ \<Rightarrow> VerifyRequest fid [])"

definition redact_dialog :: "dialog \<Rightarrow> dialog" where
  "redact_dialog d = d\<lparr> verificationCode := [], pending := map redact_request (pending d) \<rparr>"

definition observe_setup :: "dialog \<times> action list \<Rightarrow> dialog \<times> action list" where
  "observe_setup r = (redact_dialog (fst r), map redact (snd r))"

definition observe_disable :: "profile_page \<times> action list \<Rightarrow> profile_page \<times> action list" where
  "observe_disable r = ((fst r)\<lparr> totpCodeForDisable := [] \<rparr>, map redact (snd r))"

text \<open>
  The shapes of an entered code: what the guard of \<open>handleVerifyCode\<close> asks of the
  stored code, and what the code field of the profile page can hold.
\<close>

definition setup_code_shape :: "string \<Rightarrow> bool" where
  "setup_code_shape c = (length c = 6)"

definition at_most_6_digits :: "string \<Rightarrow> bool" where
  "at_most_6_digits c = (list_all is_digit c \<and> length c \<le> 6)"

text \<open>
  Two events of the setup dialog that differ at most in the code typed, a code of the
  shape above in both.
\<close>

definition same_but_code :: "event \<Rightarrow> event \<Rightarrow> bool" where
  "same_but_code e1 e2 =
     (e1 = e2 \<or>
      (case (e1, e2) of
         (TypeCode raw1, TypeCode raw2) \<Rightarrow>
           setup_code_shape (filter (\<lambda>c. \<not> js_space c) raw1) \<and>
           setup_code_shape (filter (\<lambda>c. \<not> js_space c) raw2)
       | _ \<Rightarrow> False))"

text \<open>Two states of the dialog that differ at most in the code, of the same length in both.\<close>

definition same_but_code_state :: "dialog \<Rightarrow> dialog \<Rightarrow> bool" where
  "same_but_code_state d1 d2 =
     (redact_dialog d1 = redact_dialog d2 \<and>
      length (verificationCode d1) = length (verificationCode d2))"

text \<open>Sample replies and sample runs of the dialog.\<close>

definition sample_enroll :: enroll_data where
  "sample_enroll = \<lparr> enroll_id = ''f1'', qr_code = ''<svg/>'', secret = ''JBSWY3DP'' \<rparr>"

definition no_error :: js_error where
  "no_error = \<lparr> err_message = None, err_code = None, err_details = None, err_status = None \<rparr>"

definition sample_verify_env :: "verify_data reply \<Rightarrow> verify_env" where
  "sample_verify_env v =
     \<lparr> challenge_reply = Resolved (Data ''c1''), verify_reply = Resolved v,
       rpc_reply = Resolved (Data ()), refresh_reply = Resolved () \<rparr>"

definition codes_reply :: "verify_data reply" where
  "codes_reply = Data \<lparr> recovery_codes = Some [''abcd1234'', ''efgh5678''], totp_recovery_codes = None \<rparr>"

definition invalid_code_reply :: "verify_data reply" where
  "invalid_code_reply = Error (no_error\<lparr> err_message := Some ''Invalid TOTP code entered'' \<rparr>)"

text \<open>Up to the click on the verify button, with the code \<open>123456\<close> entered.\<close>

definition verify_clicked :: "event list" where
  "verify_clicked =
     [OpenDialog, RunEffect, Answer 0 (EnrollAnswer (Resolved (Data sample_enroll))),
      TypeCode ''123 456'', ClickVerify]"

text \<open>A verification that fails, and a second one that succeeds with recovery codes.\<close>

definition setup_events :: "event list" where
  "setup_events =
     verify_clicked @
     [Answer 0 (VerifyAnswer (sample_verify_env invalid_code_reply)), ClickVerify,
      Answer 0 (VerifyAnswer (sample_verify_env codes_reply))]"

text \<open>The same run with another code typed.\<close>

definition other_code_events :: "event list" where
  "other_code_events =
     [OpenDialog, RunEffect, Answer 0 (EnrollAnswer (Resolved (Data sample_enroll))),
      TypeCode ''000000'', ClickVerify,
      Answer 0 (VerifyAnswer (sample_verify_env invalid_code_reply)), ClickVerify,
      Answer 0 (VerifyAnswer (sample_verify_env codes_reply))]"

text \<open>
  The user cancels while the verification is awaited; the effect runs on the closed
  dialog; then the verification is answered, successfully and with recovery codes.
\<close>

definition cancelled_verify_events :: "event list" where
  "cancelled_verify_events =
     verify_clicked @
     [ClickCancel, RunEffect, Answer 0 (VerifyAnswer (sample_verify_env codes_reply))]"


definition sample_disable_env :: disable_env where
  "sample_disable_env =
     \<lparr> listFactors_reply = Resolved (Data [\<lparr> factor_id = ''f1'', factor_status = ''verified'' \<rparr>]),
       challengeAndVerify_reply = Resolved (Data ()),
       unenroll_reply = Resolved (Data ()),
       disable_rpc_reply = Resolved (Data ()),
       disable_refresh_reply = Resolved () \<rparr>"

definition disable_page :: "string \<Rightarrow> profile_page" where
  "disable_page c = \<lparr> isDisablingTotp = False, totpCodeForDisable = c \<rparr>"

text \<open>Replies that differ from the samples only outside \<open>challenge\<close> and \<open>verify\<close>: the RPC
  \<open>set_totp_enabled\<close> answers with an error; \<open>unenroll\<close> answers with an error.\<close>

definition rpc_error_env :: verify_env where
  "rpc_error_env =
     (sample_verify_env codes_reply)
       \<lparr> rpc_reply := Resolved (Error (no_error\<lparr> err_message := Some ''User profile not found'' \<rparr>)) \<rparr>"

definition unenroll_error_env :: disable_env where
  "unenroll_error_env =
     sample_disable_env
       \<lparr> unenroll_reply := Resolved (Error (no_error\<lparr> err_message := Some ''AAL2 required'' \<rparr>)) \<rparr>"

section \<open>The \<open>create-user\<close> Edge Function\<close>

record CreateUserPayload =
  payload_email :: "string option"
  payload_password :: "string option"
  payload_full_name :: "string option"
  payload_username :: "string option"
  payload_role :: "string option"

text \<open>A request: its method and its JSON body, \<open>None\<close> when \<open>req.json()\<close> throws.\<close>

record request =
  req_method :: string
  req_json :: "CreateUserPayload option"

text \<open>The error texts of the function's responses, one constructor per text.\<close>

datatype create_user_error =
    ErrServerConfiguration
  | ErrInvalidJson
  | ErrMissingFields
  | ErrAuth "string option"
  | ErrEmailInUse
  | ErrPasswordTooShort
  | ErrNoUserObject
  | ErrProfileUpdate "string option"
  | ErrUsernameTaken
  | ErrProfileEmailTaken
  | ErrUniqueValueTaken
  | ErrUsernameTakenByMessage
  | ErrProfileEmailTakenByMessage
  | ErrProfileUpdateCode "string option" string
  | ErrInternal

datatype body = BodyOk | BodyError create_user_error | BodyCreated uuid

record response =
  resp_status :: nat
  resp_body :: body

text \<open>
  The calls the function makes with the service-role client. It has no call that removes
  an account.
\<close>

datatype admin_call =
    AuthCreateUser string string
  | AuthUpdateUserById uuid
  | ProfilesUpdate uuid string string string

record create_env =
  createUser_reply :: "uuid option reply awaited"
  updateUserById_reply :: "unit reply awaited"
  profile_update_reply :: "unit reply awaited"

text \<open>\<open>x || fallback\<close> on an optional number: \<open>undefined\<close> and \<open>0\<close> are falsy.\<close>

definition status_or :: "nat option \<Rightarrow> nat \<Rightarrow> nat" where
  "status_or s fallback = (case s of None \<Rightarrow> fallback | Some n \<Rightarrow> if n = 0 then fallback else n)"

text \<open>\<open>text?.toLowerCase().includes(needle)\<close> on an optional text.\<close>

definition lower_includes :: "string option \<Rightarrow> string \<Rightarrow> bool" where
  "lower_includes t needle = (case t of None \<Rightarrow> False | Some s \<Rightarrow> js_includes (lower s) needle)"

text \<open>
  \<open>new Response(body, { status })\<close> throws for a status outside 200..599 and, the body
  not being null, for the statuses 204, 205 and 304; inside the function's \<open>try\<close> the
  throw ends in its \<open>catch\<close>, which answers 500.
\<close>

definition respond :: "nat \<Rightarrow> body \<Rightarrow> response" where
  "respond s b =
     (if 200 \<le> s \<and> s \<le> 599 \<and> s \<noteq> 204 \<and> s \<noteq> 205 \<and> s \<noteq> 304 then
        \<lparr> resp_status = s, resp_body = b \<rparr>
      else \<lparr> resp_status = 500, resp_body = BodyError ErrInternal \<rparr>)"

definition internal_error :: response where
  "internal_error = \<lparr> resp_status = 500, resp_body = BodyError ErrInternal \<rparr>"

text \<open>The response for a failed \<open>auth.admin.createUser\<close>.\<close>

definition auth_error_response :: "js_error \<Rightarrow> response" where
  "auth_error_response authError =
     (if lower_includes (err_message authError) ''unique constraint'' \<and>
         lower_includes (err_message authError) ''email'' then
        respond 409 (BodyError ErrEmailInUse)
      else if lower_includes (err_message authError) ''password should be at least 6 characters'' then
        respond 400 (BodyError ErrPasswordTooShort)
      else
        respond (status_or (err_status authError) 400) (BodyError (ErrAuth (err_message authError))))"

text \<open>The response for a failed update of the profile.\<close>

definition profile_error_response :: "js_error \<Rightarrow> response" where
  "profile_error_response err =
     (if truthy (err_code err) \<and> err_code err = Some ''23505'' then
        respond 409 (BodyError
          (if lower_includes (err_message err) ''profiles_username_key'' \<or>
              lower_includes (err_details err) ''username'' then ErrUsernameTaken
           else if lower_includes (err_message err) ''profiles_email_key'' \<or>
              lower_includes (err_details err) ''email'' then ErrProfileEmailTaken
           else ErrUniqueValueTaken))
      else if lower_includes (err_message err) ''unique constraint'' \<and>
          (lower_includes (err_message err) ''profiles_username_key'' \<or>
           lower_includes (err_message err) ''username'') then
        respond 409 (BodyError ErrUsernameTakenByMessage)
      else if lower_includes (err_message err) ''unique constraint'' \<and>
          (lower_includes (err_message err) ''profiles_email_key'' \<or>
           lower_includes (err_message err) ''email'') then
        respond 409 (BodyError ErrProfileEmailTakenByMessage)
      else
        (case err_code err of
           Some c \<Rightarrow>
             if c \<noteq> [] then
               respond (status_or (err_status err) 500)
                 (BodyError (ErrProfileUpdateCode (err_message err) c))
             else respond 500 (BodyError (ErrProfileUpdate (err_message err)))
         | None \<Rightarrow> respond 500 (BodyError (ErrProfileUpdate (err_message err)))))"

text \<open>
  The handler. \<open>configured\<close> says whether both environment variables are set;
  \<open>auth_users\<close> are the accounts of the auth service before the request. The result is
  the response, the calls made, and the accounts after the request: a \<open>createUser\<close> that
  answers with a user has created that account.
\<close>

definition create_user ::
  "bool \<Rightarrow> request \<Rightarrow> create_env \<Rightarrow> uuid list \<Rightarrow> response \<times> admin_call list \<times> uuid list"
where
  "create_user configured req env auth_users =
     (if req_method req = ''OPTIONS'' then (\<lparr> resp_status = 200, resp_body = BodyOk \<rparr>, [], auth_users)
      else if \<not> configured then
        (\<lparr> resp_status = 500, resp_body = BodyError ErrServerConfiguration \<rparr>, [], auth_users)
      else
        (case req_json req of
           None \<Rightarrow> (\<lparr> resp_status = 400, resp_body = BodyError ErrInvalidJson \<rparr>, [], auth_users)
         | Some payload \<Rightarrow>
        (case (payload_email payload, payload_password payload, payload_full_name payload,
               payload_username payload, payload_role payload) of
           (Some email_v, Some password_v, Some full_name_v, Some username_v, Some role_v) \<Rightarrow>
             if email_v = [] \<or> password_v = [] \<or> full_name_v = [] \<or> username_v = [] \<or>
                role_v = [] then
               (\<lparr> resp_status = 400, resp_body = BodyError ErrMissingFields \<rparr>, [], auth_users)
             else
               (let called = [AuthCreateUser email_v password_v] in
                case createUser_reply env of
                  Rejected e \<Rightarrow> (internal_error, called, auth_users)
                | Resolved (Error authError) \<Rightarrow> (auth_error_response authError, called, auth_users)
                | Resolved (Data None) \<Rightarrow>
                    (respond 500 (BodyError ErrNoUserObject), called, auth_users)
                | Resolved (Data (Some newUserId)) \<Rightarrow>
               (let auth_users = auth_users @ [newUserId];
                    called = called @ [AuthUpdateUserById newUserId] in
                case updateUserById_reply env of
                  Rejected e \<Rightarrow> (internal_error, called, auth_users)
                | Resolved _ \<Rightarrow>
               (let called = called @ [ProfilesUpdate newUserId full_name_v username_v role_v] in
                case profile_update_reply env of
                  Rejected e \<Rightarrow> (internal_error, called, auth_users)
                | Resolved (Error profileError) \<Rightarrow>
                    (profile_error_response profileError, called, auth_users)
                | Resolved (Data _) \<Rightarrow>
                    (respond 201 (BodyCreated newUserId), called, auth_users))))
         | _ \<Rightarrow> (\<lparr> resp_status = 400, resp_body = BodyError ErrMissingFields \<rparr>, [], auth_users))))"

text \<open>A well-formed request and a reply of the database to a duplicate username.\<close>

definition new_user_request :: request where
  "new_user_request =
     \<lparr> req_method = ''POST'',
       req_json = Some \<lparr> payload_email = Some ''dave@example.org'', payload_password = Some ''secret123'',
         payload_full_name = Some ''Dave'', payload_username = Some ''bob'',
         payload_role = Some ''user'' \<rparr> \<rparr>"

definition duplicate_username_error :: js_error where
  "duplicate_username_error =
     \<lparr> err_message = Some ''duplicate key value violates unique constraint \"profiles_username_key\"'',
       err_code = Some ''23505'',
       err_details = Some ''Key (username)=(bob) already exists.'',
       err_status = None \<rparr>"

definition duplicate_username_env :: create_env where
  "duplicate_username_env =
     \<lparr> createUser_reply = Resolved (Data (Some ''u9'')),
       updateUserById_reply = Resolved (Data ()),
       profile_update_reply = Resolved (Error duplicate_username_error) \<rparr>"

section \<open>Role flags of \<open>useAuth\<close>\<close>

lemma useAuth_flags:
  "isUser (useAuth c) = (authRole (useAuth c) = Some ''USER'') \<and>
   isModerator (useAuth c) = (authRole (useAuth c) = Some ''MODERATOR'') \<and>
   isAdmin (useAuth c) = (authRole (useAuth c) = Some ''ADMIN'') \<and>
   isSuperAdmin (useAuth c) = (authRole (useAuth c) = Some ''SUPER_ADMIN'') \<and>
   canModerate (useAuth c) =
     (isModerator (useAuth c) \<or> isAdmin (useAuth c) \<or> isSuperAdmin (useAuth c)) \<and>
   canAdminister (useAuth c) = (isAdmin (useAuth c) \<or> isSuperAdmin (useAuth c))"
  by (simp add: useAuth_def Let_def)

text \<open>
  C1. The claim: for a loaded profile, \<open>isUser\<close>, \<open>isModerator\<close> and \<open>isAdmin\<close> hold exactly
  for the roles \<open>user\<close>, \<open>moderator\<close> and \<open>admin\<close>, \<open>canModerate\<close> for moderator, admin and
  super-admin, \<open>canAdminister\<close> for admin and super-admin. The hook compares the role
  with the upper-case texts \<open>USER\<close>, \<open>MODERATOR\<close>, \<open>ADMIN\<close>, while the profiles carry the
  lower-case roles \<open>user\<close>, \<open>moderator\<close>, \<open>admin\<close> (and \<open>SUPER_ADMIN\<close>): on a profile
  whose role is \<open>admin\<close> every flag of the hook is false, although the role check of
  \<open>UserManagementPage\<close> lets the same context in; likewise \<open>isUser\<close> is false for the
  role \<open>user\<close> and \<open>isModerator\<close> and \<open>canModerate\<close> are false for \<open>moderator\<close>. Only
  \<open>SUPER_ADMIN\<close> is recognised.
\<close>

theorem useAuth_lower_case_roles_unrecognised:
  "isAdmin (useAuth (loaded_context (Some ''admin''))) = False \<and>
   canAdminister (useAuth (loaded_context (Some ''admin''))) = False \<and>
   canModerate (useAuth (loaded_context (Some ''admin''))) = False \<and>
   page_role_check (loaded_context (Some ''admin'')) = FetchUsers \<and>
   isUser (useAuth (loaded_context (Some ''user''))) = False \<and>
   isModerator (useAuth (loaded_context (Some ''moderator''))) = False \<and>
   canModerate (useAuth (loaded_context (Some ''moderator''))) = False \<and>
   canAdminister (useAuth (loaded_context (Some ''SUPER_ADMIN''))) = True"
  by (simp add: useAuth_def page_role_check_def loaded_context_def Let_def)

section \<open>The RPCs: validation, uniqueness and frame\<close>

lemmas sql_defs = is_true_def sql_lt_def sql_gt_def sql_eq_def sql_ne_def sql_and_def
  sql_not_match_username_def char_length_def lower_sql_def

lemmas eval_defs = profiles3_def row_def lower_def lower_char_def
  matches_username_pattern_def username_char_def

lemma username_char_iff:
  "username_char c \<longleftrightarrow>
     c \<in> set ''abcdefghijklmnopqrstuvwxyzABCDEFGHIJKLMNOPQRSTUVWXYZ0123456789_.''"
  by (cases c) (simp add: username_char_def)

lemma taken_iff:
  "list_ex (\<lambda>p. is_true (sql_and (sql_eq (lower_sql (username p)) (lower_sql (Some s)))
                               (sql_ne (Some (profile_id p)) (Some u)))) profiles
   \<longleftrightarrow> (\<exists>p\<in>set profiles. profile_id p \<noteq> u \<and> (\<exists>n. username p = Some n \<and> lower n = lower s))"
  by (auto simp: list_ex_iff sql_defs split: option.splits)

lemma update_rows_hit:
  "is_true (sql_eq (Some (profile_id p)) (Some u)) \<longleftrightarrow> profile_id p = u"
  by (simp add: sql_defs)

lemma first_hit:
  "list_ex (\<lambda>p. profile_id p = u) profiles \<Longrightarrow>
   \<exists>p\<in>set profiles. profile_id p = u \<and>
     (case filter (\<lambda>p. profile_id p = u) profiles of [] \<Rightarrow> None | q # _ \<Rightarrow> Some (f q)) = Some (f p)"
  by (induction profiles) auto

text \<open>
  A \<open>NULL\<close> username passes every check, each comparison with \<open>NULL\<close> being \<open>NULL\<close>,
  and is written as it is.
\<close>

lemma update_username_null:
  "update_username profiles uid None =
     (map (\<lambda>p. if Some (profile_id p) = uid then p\<lparr>username := None\<rparr> else p) profiles,
      Inr (case filter (\<lambda>p. Some (profile_id p) = uid) profiles of
             [] \<Rightarrow> None
           | p # _ \<Rightarrow> Some (p\<lparr>username := None\<rparr>)))"
  by (cases uid) (auto simp: update_username_def Let_def sql_defs list_ex_iff split: option.splits)

text \<open>
  C2, as amended. For a caller whose \<open>auth.uid()\<close> is the id of a row of the table,
  \<open>update_username\<close> raises, and leaves the table as it was, exactly when the proposed
  username is a text, not \<open>NULL\<close>, that has fewer than 3 characters, or more than 30,
  or a character outside \<open>a-z\<close>, \<open>A-Z\<close>, \<open>0-9\<close>, underscore and dot, or equals,
  ignoring letter case, the username of a row with another id. Otherwise, also for a
  \<open>NULL\<close> username, it writes exactly the proposed value into the caller's row and
  returns that row as updated.
\<close>

theorem update_username_raises_iff:
  assumes caller: "list_ex (\<lambda>p. profile_id p = u) profiles"
  shows "let r = update_username profiles (Some u) new_username;
             rejected = (\<exists>s. new_username = Some s \<and>
               (length s < 3 \<or> 30 < length s \<or>
                (\<exists>c\<in>set s. c \<notin> set ''abcdefghijklmnopqrstuvwxyzABCDEFGHIJKLMNOPQRSTUVWXYZ0123456789_.'') \<or>
                (\<exists>p\<in>set profiles. profile_id p \<noteq> u \<and>
                   (\<exists>n. username p = Some n \<and> lower n = lower s))))
         in (isl (snd r) \<longleftrightarrow> rejected) \<and>
            (isl (snd r) \<longrightarrow> fst r = profiles) \<and>
            (\<not> rejected \<longrightarrow>
               fst r = map (\<lambda>p. if profile_id p = u then p\<lparr>username := new_username\<rparr> else p) profiles \<and>
               (\<exists>p\<in>set profiles. profile_id p = u \<and>
                  snd r = Inr (Some (p\<lparr>username := new_username\<rparr>))))"
proof (cases new_username)
  case None
  obtain p where p: "p \<in> set profiles" "profile_id p = u"
    "(case filter (\<lambda>p. profile_id p = u) profiles of [] \<Rightarrow> None
        | q # _ \<Rightarrow> Some (q\<lparr>username := None\<rparr>)) = Some (p\<lparr>username := None\<rparr>)"
    using first_hit [OF caller, of "\<lambda>q. q\<lparr>username := None\<rparr>"] by blast
  show ?thesis
    unfolding Let_def None update_username_null
    using p by auto
next
  case (Some s)
  let ?taken = "\<exists>p\<in>set profiles. profile_id p \<noteq> u \<and> (\<exists>n. username p = Some n \<and> lower n = lower s)"
  let ?bad = "\<exists>c\<in>set s. c \<notin> set ''abcdefghijklmnopqrstuvwxyzABCDEFGHIJKLMNOPQRSTUVWXYZ0123456789_.''"
  have pat: "matches_username_pattern s \<longleftrightarrow> s \<noteq> [] \<and> \<not> ?bad"
    unfolding matches_username_pattern_def list_all_iff username_char_iff by blast
  have fmt: "is_true (sql_lt (char_length (Some s)) (Some 3)) = (length s < 3)"
    "is_true (sql_gt (char_length (Some s)) (Some 30)) = (30 < length s)"
    "is_true (sql_not_match_username (Some s)) = (\<not> matches_username_pattern s)"
    by (simp_all add: sql_defs)
  obtain p where p: "p \<in> set profiles" "profile_id p = u"
    "(case filter (\<lambda>p. profile_id p = u) profiles of [] \<Rightarrow> None
        | q # _ \<Rightarrow> Some (q\<lparr>username := Some s\<rparr>)) = Some (p\<lparr>username := Some s\<rparr>)"
    using first_hit [OF caller, of "\<lambda>q. q\<lparr>username := Some s\<rparr>"] by blast
  have short: "s = [] \<Longrightarrow> length s < 3" by simp
  show ?thesis
    unfolding Let_def Some update_username_def fmt taken_iff update_rows_hit pat
    using p short by (auto simp del: set_simps)
qed

text \<open>The theorem at the table \<open>profiles3\<close>: a name taken by another row, a name with a
  space, a free name, and \<open>NULL\<close>.\<close>

theorem update_username_raises_iff_witness:
  "list_ex (\<lambda>p. profile_id p = ''u1'') profiles3 \<and>
   isl (snd (update_username profiles3 (Some ''u1'') (Some ''CAROL''))) \<and>
   fst (update_username profiles3 (Some ''u1'') (Some ''CAROL'')) = profiles3 \<and>
   isl (snd (update_username profiles3 (Some ''u1'') (Some ''bo b''))) \<and>
   \<not> isl (snd (update_username profiles3 (Some ''u1'') (Some ''Bobby''))) \<and>
   fst (update_username profiles3 (Some ''u1'') (Some ''Bobby'')) =
     [row ''u1'' (Some ''Bobby''), row ''u2'' (Some ''Carol''), row ''u3'' None] \<and>
   \<not> isl (snd (update_username profiles3 (Some ''u1'') None)) \<and>
   fst (update_username profiles3 (Some ''u1'') None) =
     [row ''u1'' None, row ''u2'' (Some ''Carol''), row ''u3'' None]"
proof -
  have h: "list_ex (\<lambda>p. profile_id p = ''u1'') profiles3"
    by (simp add: eval_defs)
  show ?thesis
    using h update_username_raises_iff [OF h, of "Some ''CAROL''"]
      update_username_raises_iff [OF h, of "Some ''bo b''"]
      update_username_raises_iff [OF h, of "Some ''Bobby''"]
      update_username_raises_iff [OF h, of None]
    by (simp add: Let_def eval_defs)
qed

text \<open>
  The claim as stated fails for a caller without a row: nothing is raised, nothing is
  written, and the row returned is \<open>NULL\<close>. For a caller that is not signed in not
  even a taken name is refused.
\<close>

theorem update_username_without_profile_row:
  "update_username [] (Some ''u1'') (Some ''alice'') = ([], Inr None) \<and>
   update_username [row ''u2'' (Some ''bob'')] None (Some ''bob'') =
     ([row ''u2'' (Some ''bob'')], Inr None)"
  by (simp add: update_username_def sql_defs Let_def eval_defs)

lemma map_update_no_hit:
  "\<forall>q\<in>set ps. \<not> h q \<Longrightarrow> map (\<lambda>p. if h p then f p else p) ps = ps"
  by (induction ps) auto

lemma distinct_ci_update:
  assumes "distinct (map profile_id ps)" and "usernames_distinct_ci ps"
    and "\<forall>q\<in>set ps. profile_id q \<noteq> u \<longrightarrow>
           \<not> is_true (sql_eq (lower_sql (username q)) (lower_sql new))"
  shows "usernames_distinct_ci
           (map (\<lambda>p. if profile_id p = u then p\<lparr>username := new\<rparr> else p) ps)"
  using assms
proof (induction ps)
  case Nil
  then show ?case by simp
next
  case (Cons p ps)
  let ?upd = "\<lambda>p. if profile_id p = u then p\<lparr>username := new\<rparr> else p"
  have ih: "usernames_distinct_ci (map ?upd ps)"
    using Cons by simp
  show ?case
  proof (cases "profile_id p = u")
    case True
    with Cons.prems(1) have nohit: "\<forall>q\<in>set ps. \<not> profile_id q = u"
      by (metis distinct.simps(2) in_set_conv_decomp list.simps(9) map_append)
    then have same: "map ?upd ps = ps" by (rule map_update_no_hit)
    have "list_all (\<lambda>q. \<not> same_username_ci (p\<lparr>username := new\<rparr>) q) ps"
      using nohit Cons.prems(3)
      by (auto simp: list_all_iff same_username_ci_def sql_defs split: option.splits)
    with Cons.prems(2) True same show ?thesis by simp
  next
    case False
    have "list_all (\<lambda>q. \<not> same_username_ci p q) (map ?upd ps)"
      using Cons.prems(2,3) False
      by (auto simp: list_all_iff same_username_ci_def sql_defs split: option.splits)
    with ih False show ?thesis by simp
  qed
qed

text \<open>
  C3. In a table whose ids are distinct (\<open>id\<close> is the key of \<open>profiles\<close>) and whose
  usernames are pairwise distinct ignoring letter case, the table after a successful
  \<open>update_username\<close> again has usernames pairwise distinct ignoring letter case.
\<close>

theorem update_username_keeps_usernames_distinct:
  assumes key: "distinct (map profile_id profiles)"
    and inv: "usernames_distinct_ci profiles"
    and ok: "update_username profiles current_user_id new_username = (profiles', Inr r)"
  shows "usernames_distinct_ci profiles'"
proof (cases current_user_id)
  case None
  then have "\<forall>q\<in>set profiles. \<not> is_true (sql_eq (Some (profile_id q)) current_user_id)"
    by (simp add: sql_defs)
  then have "map (\<lambda>p. if is_true (sql_eq (Some (profile_id p)) current_user_id)
      then p\<lparr>username := new_username\<rparr> else p) profiles = profiles"
    by (rule map_update_no_hit)
  with ok have "profiles' = profiles"
    by (auto simp: update_username_def Let_def split: if_splits)
  with inv show ?thesis by simp
next
  case (Some u)
  from ok have free: "\<not> list_ex
          (\<lambda>p. is_true (sql_and
                  (sql_eq (lower_sql (username p)) (lower_sql new_username))
                  (sql_ne (Some (profile_id p)) current_user_id))) profiles"
    and tbl: "profiles' = map (\<lambda>p. if is_true (sql_eq (Some (profile_id p)) current_user_id)
      then p\<lparr>username := new_username\<rparr> else p) profiles"
    by (auto simp: update_username_def Let_def split: if_splits)
  from free Some have "\<forall>q\<in>set profiles. profile_id q \<noteq> u \<longrightarrow>
           \<not> is_true (sql_eq (lower_sql (username q)) (lower_sql new_username))"
    by (auto simp: list_ex_iff sql_defs split: option.splits)
  from distinct_ci_update [OF key inv this] tbl Some show ?thesis
    by (simp add: update_rows_hit)
qed


text \<open>The theorem at \<open>profiles3\<close>: the first user changes the case of their name.\<close>

theorem update_username_keeps_usernames_distinct_witness:
  "distinct (map profile_id profiles3) \<and> usernames_distinct_ci profiles3 \<and>
   update_username profiles3 (Some ''u1'') (Some ''BOB'') =
     ([row ''u1'' (Some ''BOB''), row ''u2'' (Some ''Carol''), row ''u3'' None],
      Inr (Some (row ''u1'' (Some ''BOB'')))) \<and>
   usernames_distinct_ci [row ''u1'' (Some ''BOB''), row ''u2'' (Some ''Carol''), row ''u3'' None]"
proof -
  have h1: "distinct (map profile_id profiles3)"
    by (simp add: eval_defs)
  have h2: "usernames_distinct_ci profiles3"
    by (simp add: eval_defs same_username_ci_def sql_defs)
  have h3: "update_username profiles3 (Some ''u1'') (Some ''BOB'') =
     ([row ''u1'' (Some ''BOB''), row ''u2'' (Some ''Carol''), row ''u3'' None],
      Inr (Some (row ''u1'' (Some ''BOB''))))"
    by (simp add: update_username_def sql_defs Let_def eval_defs)
  from update_username_keeps_usernames_distinct [OF h1 h2 h3] h1 h2 h3
  show ?thesis by simp
qed

lemma update_username_table:
  "fst (update_username profiles uid new) = profiles \<or>
   fst (update_username profiles uid new) =
     map (\<lambda>p. if Some (profile_id p) = uid then p\<lparr>username := new\<rparr> else p) profiles"
  by (cases uid) (simp_all add: update_username_def Let_def sql_defs)

lemma set_totp_enabled_table:
  "fst (set_totp_enabled profiles uid b) = profiles \<or>
   (\<exists>v. fst (set_totp_enabled profiles uid b) =
     map (\<lambda>p. if Some (profile_id p) = uid then p\<lparr>is_totp_enabled := v\<rparr> else p) profiles)"
proof (cases b)
  case None
  then show ?thesis by (simp add: set_totp_enabled_def Let_def)
next
  case (Some v)
  have "fst (set_totp_enabled profiles uid b) = profiles \<or>
     fst (set_totp_enabled profiles uid b) =
       map (\<lambda>p. if Some (profile_id p) = uid then p\<lparr>is_totp_enabled := v\<rparr> else p) profiles"
    using Some by (cases uid) (simp_all add: set_totp_enabled_def Let_def sql_defs)
  then show ?thesis by blast
qed

lemma key_index:
  "distinct (map profile_id profiles) \<Longrightarrow> i < length profiles \<Longrightarrow> j < length profiles \<Longrightarrow>
   profile_id (profiles ! i) = profile_id (profiles ! j) \<Longrightarrow> i = j"
  by (metis length_map nth_eq_iff_index_eq nth_map)

lemma frame_of_map:
  assumes t: "t = profiles \<or> t = map (\<lambda>p. if Some (profile_id p) = uid then f p else p) profiles"
  shows "length t = length profiles"
    and "i < length profiles \<Longrightarrow> Some (profile_id (profiles ! i)) \<noteq> uid \<Longrightarrow> t ! i = profiles ! i"
    and "i < length profiles \<Longrightarrow> t ! i = profiles ! i \<or> t ! i = f (profiles ! i)"
    and "distinct (map profile_id profiles) \<Longrightarrow> i < length profiles \<Longrightarrow> j < length profiles \<Longrightarrow>
         t ! i \<noteq> profiles ! i \<Longrightarrow> t ! j \<noteq> profiles ! j \<Longrightarrow> i = j"
proof -
  show "length t = length profiles" using t by auto
  show "i < length profiles \<Longrightarrow> Some (profile_id (profiles ! i)) \<noteq> uid \<Longrightarrow> t ! i = profiles ! i"
    using t by auto
  show "i < length profiles \<Longrightarrow> t ! i = profiles ! i \<or> t ! i = f (profiles ! i)"
    using t by auto
  show "i = j" if "distinct (map profile_id profiles)" "i < length profiles" "j < length profiles"
    "t ! i \<noteq> profiles ! i" "t ! j \<noteq> profiles ! j"
  proof -
    from that t have "Some (profile_id (profiles ! i)) = uid" "Some (profile_id (profiles ! j)) = uid"
      by (auto split: if_splits)
    then have "profile_id (profiles ! i) = profile_id (profiles ! j)" by auto
    with that show ?thesis by (blast intro: key_index)
  qed
qed

text \<open>
  C4. Whatever the arguments, \<open>update_username\<close> and \<open>set_totp_enabled\<close> keep the
  number of rows, leave every row whose id is not \<open>auth.uid()\<close> as it was, change
  nothing but \<open>username\<close>, respectively \<open>is_totp_enabled\<close>, in a row, and, the ids being
  distinct, change at most one row.
\<close>

theorem rpcs_touch_only_callers_row:
  "let t1 = fst (update_username profiles uid new_username);
       t2 = fst (set_totp_enabled profiles uid p_is_enabled)
   in length t1 = length profiles \<and> length t2 = length profiles \<and>
      (\<forall>i<length profiles. Some (profile_id (profiles ! i)) \<noteq> uid \<longrightarrow>
          t1 ! i = profiles ! i \<and> t2 ! i = profiles ! i) \<and>
      (\<forall>i<length profiles.
          (t1 ! i = profiles ! i \<or> t1 ! i = (profiles ! i)\<lparr>username := new_username\<rparr>) \<and>
          (\<exists>v. t2 ! i = (profiles ! i)\<lparr>is_totp_enabled := v\<rparr>)) \<and>
      (distinct (map profile_id profiles) \<longrightarrow>
         (\<forall>i<length profiles. \<forall>j<length profiles.
            (t1 ! i \<noteq> profiles ! i \<and> t1 ! j \<noteq> profiles ! j \<longrightarrow> i = j) \<and>
            (t2 ! i \<noteq> profiles ! i \<and> t2 ! j \<noteq> profiles ! j \<longrightarrow> i = j)))"
proof -
  define t1 where "t1 = fst (update_username profiles uid new_username)"
  define t2 where "t2 = fst (set_totp_enabled profiles uid p_is_enabled)"
  have a: "t1 = profiles \<or>
      t1 = map (\<lambda>p. if Some (profile_id p) = uid then p\<lparr>username := new_username\<rparr> else p) profiles"
    unfolding t1_def by (rule update_username_table)
  obtain v where b: "t2 = profiles \<or>
      t2 = map (\<lambda>p. if Some (profile_id p) = uid then p\<lparr>is_totp_enabled := v\<rparr> else p) profiles"
    unfolding t2_def using set_totp_enabled_table by blast
  have same: "\<exists>v. p = p\<lparr>is_totp_enabled := v\<rparr>" for p :: profile
    by (rule exI [of _ "is_totp_enabled p"]) simp
  have "length t1 = length profiles" "length t2 = length profiles"
    using frame_of_map(1) [OF a] frame_of_map(1) [OF b] by auto
  moreover have "\<forall>i<length profiles. Some (profile_id (profiles ! i)) \<noteq> uid \<longrightarrow>
          t1 ! i = profiles ! i \<and> t2 ! i = profiles ! i"
    using frame_of_map(2) [OF a] frame_of_map(2) [OF b] by blast
  moreover have "\<forall>i<length profiles.
          (t1 ! i = profiles ! i \<or> t1 ! i = (profiles ! i)\<lparr>username := new_username\<rparr>) \<and>
          (\<exists>v. t2 ! i = (profiles ! i)\<lparr>is_totp_enabled := v\<rparr>)"
    using frame_of_map(3) [OF a] frame_of_map(3) [OF b] same by metis
  moreover have "distinct (map profile_id profiles) \<longrightarrow>
         (\<forall>i<length profiles. \<forall>j<length profiles.
            (t1 ! i \<noteq> profiles ! i \<and> t1 ! j \<noteq> profiles ! j \<longrightarrow> i = j) \<and>
            (t2 ! i \<noteq> profiles ! i \<and> t2 ! j \<noteq> profiles ! j \<longrightarrow> i = j))"
    using frame_of_map(4) [OF a] frame_of_map(4) [OF b] by blast
  ultimately show ?thesis
    unfolding Let_def t1_def [symmetric] t2_def [symmetric] by blast
qed

text \<open>The theorem at \<open>profiles3\<close>, the caller being the second row.\<close>

theorem rpcs_touch_only_callers_row_witness:
  "length (fst (update_username profiles3 (Some ''u2'') (Some ''Dave''))) = 3 \<and>
   fst (update_username profiles3 (Some ''u2'') (Some ''Dave'')) ! 0 = profiles3 ! 0 \<and>
   fst (set_totp_enabled profiles3 (Some ''u2'') (Some True)) ! 2 = profiles3 ! 2 \<and>
   fst (set_totp_enabled profiles3 (Some ''u2'') (Some True)) ! 1 =
     (profiles3 ! 1)\<lparr>is_totp_enabled := True\<rparr>"
  using rpcs_touch_only_callers_row [of profiles3 "Some ''u2''" "Some ''Dave''" "Some True"]
  by (simp add: Let_def update_username_def set_totp_enabled_def sql_defs eval_defs)

text \<open>
  C9, as amended. When the caller's row holds the username \<open>old\<close>, the new name differs
  from it only in letter case and obeys the length and character rules, and no row of
  another user holds a username equal to it ignoring case, then \<open>update_username\<close>
  succeeds and the caller's row holds the new name exactly as passed.
\<close>

theorem update_username_case_change:
  assumes own: "p \<in> set profiles" "profile_id p = u" "username p = Some old"
    and case_only: "lower s = lower old"
    and fmt: "3 \<le> length s" "length s \<le> 30" "matches_username_pattern s"
    and others: "\<forall>q\<in>set profiles. profile_id q \<noteq> u \<longrightarrow>
                   (\<forall>n. username q = Some n \<longrightarrow> lower n \<noteq> lower old)"
  shows "fst (update_username profiles (Some u) (Some s)) =
           map (\<lambda>q. if profile_id q = u then q\<lparr>username := Some s\<rparr> else q) profiles \<and>
         (\<exists>q\<in>set profiles. profile_id q = u \<and>
            snd (update_username profiles (Some u) (Some s)) = Inr (Some (q\<lparr>username := Some s\<rparr>))) \<and>
         p\<lparr>username := Some s\<rparr> \<in> set (fst (update_username profiles (Some u) (Some s)))"
proof -
  have caller: "list_ex (\<lambda>p. profile_id p = u) profiles"
    using own by (auto simp: list_ex_iff)
  obtain q where q: "q \<in> set profiles" "profile_id q = u"
    "(case filter (\<lambda>p. profile_id p = u) profiles of [] \<Rightarrow> None
        | q # _ \<Rightarrow> Some (q\<lparr>username := Some s\<rparr>)) = Some (q\<lparr>username := Some s\<rparr>)"
    using first_hit [OF caller, of "\<lambda>q. q\<lparr>username := Some s\<rparr>"] by blast
  have free: "\<not> list_ex (\<lambda>p. is_true (sql_and (sql_eq (lower_sql (username p)) (lower_sql (Some s)))
                               (sql_ne (Some (profile_id p)) (Some u)))) profiles"
    unfolding taken_iff using others case_only by auto
  have r: "update_username profiles (Some u) (Some s) =
      (map (\<lambda>q. if profile_id q = u then q\<lparr>username := Some s\<rparr> else q) profiles,
       Inr (Some (q\<lparr>username := Some s\<rparr>)))"
    using fmt free q(3) by (simp add: update_username_def Let_def update_rows_hit) (simp add: sql_defs)
  have "p\<lparr>username := Some s\<rparr> \<in> set (map (\<lambda>q. if profile_id q = u then q\<lparr>username := Some s\<rparr> else q) profiles)"
    using own(1,2) by (force simp: image_iff)
  with r q show ?thesis by auto
qed


text \<open>The theorem at \<open>profiles3\<close>: \<open>bob\<close> becomes \<open>BoB\<close>.\<close>

theorem update_username_case_change_witness:
  "row ''u1'' (Some ''bob'') \<in> set profiles3 \<and>
   lower ''BoB'' = lower ''bob'' \<and> matches_username_pattern ''BoB'' \<and>
   fst (update_username profiles3 (Some ''u1'') (Some ''BoB'')) =
     [row ''u1'' (Some ''BoB''), row ''u2'' (Some ''Carol''), row ''u3'' None] \<and>
   snd (update_username profiles3 (Some ''u1'') (Some ''BoB'')) = Inr (Some (row ''u1'' (Some ''BoB'')))"
proof -
  have h1: "row ''u1'' (Some ''bob'') \<in> set profiles3" by (simp add: eval_defs)
  have h2: "profile_id (row ''u1'' (Some ''bob'')) = ''u1''" by (simp add: eval_defs)
  have h3: "username (row ''u1'' (Some ''bob'')) = Some ''bob''" by (simp add: eval_defs)
  have h4: "lower ''BoB'' = lower ''bob''" by (simp add: eval_defs)
  have h5: "3 \<le> length ''BoB''" "length ''BoB'' \<le> 30" by simp_all
  have h6: "matches_username_pattern ''BoB''" by (simp add: eval_defs)
  have h7: "\<forall>q\<in>set profiles3. profile_id q \<noteq> ''u1'' \<longrightarrow>
                   (\<forall>n. username q = Some n \<longrightarrow> lower n \<noteq> lower ''bob'')"
    by (simp add: eval_defs)
  from update_username_case_change [OF h1 h2 h3 h4 h5 h6 h7] h1 h4 h6
  show ?thesis by (auto simp: eval_defs)
qed

text \<open>
  The claim as stated fails when another user's username differs from the caller's only
  in letter case: the uniqueness check leaves out the caller's row, not the other one.
\<close>

theorem update_username_case_change_blocked:
  "update_username [row ''u1'' (Some ''bob''), row ''u2'' (Some ''Bob'')] (Some ''u1'') (Some ''BOB'') =
     ([row ''u1'' (Some ''bob''), row ''u2'' (Some ''Bob'')], Inl UsernameTaken)"
  by (simp add: update_username_def sql_defs Let_def eval_defs)

section \<open>The form's schema against the server's checks\<close>

text \<open>
  C10. The schema of \<open>UsernameEditForm\<close> accepts a text exactly when the text has at
  least 3 and at most 30 characters and matches the pattern, which is exactly when
  \<open>update_username\<close> raises none of its three format exceptions on it; for a text the
  schema accepts, the only exception left to the server is the one of its uniqueness
  check.
\<close>

theorem schema_accepts_iff_server_format_checks:
  "(schema_accepts s \<longleftrightarrow> 3 \<le> length s \<and> length s \<le> 30 \<and> matches_username_pattern s) \<and>
   (schema_accepts s \<longleftrightarrow>
      snd (update_username profiles uid (Some s)) \<notin>
        {Inl UsernameTooShort, Inl UsernameTooLong, Inl UsernameInvalidChars}) \<and>
   (schema_accepts s \<longrightarrow>
      (isl (snd (update_username profiles uid (Some s))) \<longleftrightarrow>
       snd (update_username profiles uid (Some s)) = Inl UsernameTaken))"
  by (auto simp: schema_accepts_def usernameFormSchema_def update_username_def Let_def sql_defs)

text \<open>The theorem at a text both sides accept and at a text both sides refuse.\<close>

theorem schema_accepts_iff_server_format_checks_witness:
  "schema_accepts ''Bobby'' \<and>
   snd (update_username profiles3 (Some ''u1'') (Some ''Bobby'')) \<notin>
     {Inl UsernameTooShort, Inl UsernameTooLong, Inl UsernameInvalidChars} \<and>
   \<not> isl (snd (update_username profiles3 (Some ''u1'') (Some ''Bobby''))) \<and>
   \<not> schema_accepts ''bo b'' \<and>
   snd (update_username profiles3 (Some ''u1'') (Some ''bo b'')) = Inl UsernameInvalidChars"
  using schema_accepts_iff_server_format_checks [of "''Bobby''" profiles3 "Some ''u1''"]
    schema_accepts_iff_server_format_checks [of "''bo b''" profiles3 "Some ''u1''"]
  by (simp add: schema_accepts_def usernameFormSchema_def update_username_def Let_def sql_defs
      eval_defs)

section \<open>The steps of the TOTP setup dialog\<close>


lemma run_append: "run (es @ es') = foldl fire (run es) es'"
  by (simp add: run_def)

lemmas dialog_defs = fire_def enabled_def answers_def resume_def enroll_effect_def
  enrollTotp_resume_def handleVerifyCode_start_def handleVerifyCode_resume_def verify_failed_def
  message_or_def codes_of_def settle_def set_verificationCode_def js_space_def renderContent_def
  renderFooter_def truthy_def cancel_click_def close_click_def dialog_onOpenChange_def
  handleRecoveryCodesSaved_def resetDialogState_def Let_def

lemmas sample_defs = sample_enroll_def sample_verify_env_def codes_reply_def
  invalid_code_reply_def no_error_def

text \<open>The state after the click on the verify button: the verification is awaited.\<close>

lemma run_verify_clicked:
  "run verify_clicked =
     \<lparr> isOpen = True, isLoading = True, error = None, factorId = Some ''f1'',
       qrCodeSvg = Some ''<svg/>'', secretKey = Some ''JBSWY3DP'', verificationCode = ''123456'',
       step = Verify, recoveryCodes = [], pending = [VerifyRequest ''f1'' ''123456''] \<rparr>"
  by (simp add: run_def verify_clicked_def initial_dialog_def dialog_defs sample_defs)

text \<open>
  What one event can do to the step: nothing; the reply to an enrollment that succeeded
  sets it to \<open>verify\<close>; the reply to a verification that succeeded sets it to
  \<open>recoveryCodes\<close> or, without codes, to \<open>completed\<close>; the confirmation that the codes
  are saved takes it from \<open>recoveryCodes\<close> to \<open>completed\<close>; closing resets it to
  \<open>enroll\<close>. A reply sets the step whatever the step is when it arrives.
\<close>

lemma step_changes:
  "step (fire d e) = step d \<or>
   (\<exists>n r x. e = Answer n (EnrollAnswer r) \<and> settle r = Inr x \<and> step (fire d e) = Verify) \<or>
   (\<exists>n env cid v. e = Answer n (VerifyAnswer env) \<and>
      settle (challenge_reply env) = Inr cid \<and> settle (verify_reply env) = Inr v \<and>
      ((\<exists>c cs. codes_of v = Some (c # cs) \<and> step (fire d e) = RecoveryCodes) \<or>
       ((codes_of v = None \<or> codes_of v = Some []) \<and> step (fire d e) = Completed))) \<or>
   (e = ClickSaved \<and> step d = RecoveryCodes \<and> step (fire d e) = Completed) \<or>
   ((e = RunEffect \<and> \<not> isOpen d \<or> e = ClickCancel \<or> e = ClickClose \<or> e = Dismiss) \<and>
      step (fire d e) = Enroll)"
proof (cases e)
  case (Answer n a)
  then show ?thesis
    by (cases a; cases "pending d ! n")
      (auto simp: fire_def resume_def enrollTotp_resume_def
        handleVerifyCode_resume_def verify_failed_def Let_def
        split: sum.splits awaited.splits reply.splits option.splits list.splits)
qed (auto simp: fire_def enroll_effect_def resetDialogState_def
    set_verificationCode_def handleVerifyCode_start_def cancel_click_def close_click_def
    dialog_onOpenChange_def handleRecoveryCodesSaved_def enabled_def renderFooter_def
    split: option.splits if_splits)

text \<open>
  C5. The claim: the step only moves from \<open>enroll\<close> to \<open>verify\<close>, from \<open>verify\<close> to
  \<open>recoveryCodes\<close> or \<open>completed\<close>, from \<open>recoveryCodes\<close> to \<open>completed\<close>, and back to
  \<open>enroll\<close> on closing. The dialog resets its state when it is closed, in the effect,
  in the \<open>onOpenChange\<close> it passes to \<open>Dialog\<close> and in its close button, but a
  verification that is awaited at that moment goes on afterwards: the user cancels
  while \<open>handleVerifyCode\<close> awaits its replies (the cancel button is not disabled), the
  step is reset to \<open>enroll\<close> and the dialog is closed, and the reply then sets the step
  to \<open>recoveryCodes\<close> on the closed dialog, straight from \<open>enroll\<close>; opened again, the
  dialog shows the recovery codes of the setup that was cancelled.
\<close>

theorem cancelled_verification_sets_step:
  "run (verify_clicked @ [ClickCancel, RunEffect]) =
     initial_dialog\<lparr> pending := [VerifyRequest ''f1'' ''123456''] \<rparr> \<and>
   step (run (verify_clicked @ [ClickCancel, RunEffect])) = Enroll \<and>
   run cancelled_verify_events =
     initial_dialog\<lparr> step := RecoveryCodes, recoveryCodes := [''abcd1234'', ''efgh5678''] \<rparr> \<and>
   step (run cancelled_verify_events) = RecoveryCodes \<and>
   renderContent (fire (run cancelled_verify_events) OpenDialog) =
     RecoveryCodesView [(''abcd'', ''1234''), (''efgh'', ''5678'')]"
  by (simp add: run_append run_verify_clicked cancelled_verify_events_def initial_dialog_def
      dialog_defs sample_defs)

section \<open>Recovery codes on display\<close>












section \<open>The entered code is only passed on\<close>

lemma redact_dialog_eq_iff:
  "redact_dialog d1 = redact_dialog d2 \<longleftrightarrow>
     isOpen d1 = isOpen d2 \<and> isLoading d1 = isLoading d2 \<and> error d1 = error d2 \<and>
     factorId d1 = factorId d2 \<and> qrCodeSvg d1 = qrCodeSvg d2 \<and> secretKey d1 = secretKey d2 \<and>
     step d1 = step d2 \<and> recoveryCodes d1 = recoveryCodes d2 \<and>
     map redact_request (pending d1) = map redact_request (pending d2) \<and>
     dialog.more d1 = dialog.more d2"
  by (cases d1; cases d2) (auto simp: redact_dialog_def)

lemma handleVerifyCode_start_blind:
  assumes "redact_dialog d1 = redact_dialog d2"
    and "length (verificationCode d1) = length (verificationCode d2)"
  shows "observe_setup (handleVerifyCode_start d1) = observe_setup (handleVerifyCode_start d2)"
  using assms
  by (auto simp: redact_dialog_eq_iff observe_setup_def handleVerifyCode_start_def
      redact_request_def redact_def split: option.splits)

lemma handleVerifyCode_resume_blind:
  assumes "redact_dialog d1 = redact_dialog d2"
  shows "observe_setup (handleVerifyCode_resume d1 fid c1 env) =
         observe_setup (handleVerifyCode_resume d2 fid c2 env)"
  using assms
  by (auto simp: redact_dialog_eq_iff observe_setup_def handleVerifyCode_resume_def
      verify_failed_def redact_def Let_def
      split: option.splits sum.splits awaited.splits list.splits reply.splits)

lemma handleVerifyCode_start_guard:
  "snd (handleVerifyCode_start d) = [] \<longleftrightarrow>
     \<not> (truthy (factorId d) \<and> setup_code_shape (verificationCode d))"
  by (auto simp: handleVerifyCode_start_def truthy_def setup_code_shape_def split: option.splits)

lemma redacted_nth:
  assumes "map redact_request qs1 = map redact_request qs2" and "n < length qs1"
  shows "redact_request (qs1 ! n) = redact_request (qs2 ! n)"
proof -
  from assms(1) have l: "length qs1 = length qs2" by (rule map_eq_imp_length_eq)
  have "redact_request (qs1 ! n) = map redact_request qs1 ! n" using assms(2) by simp
  also have "\<dots> = map redact_request qs2 ! n" using assms(1) by simp
  also have "\<dots> = redact_request (qs2 ! n)" using assms(2) l by simp
  finally show ?thesis .
qed

lemma redacted_remove:
  assumes "map redact_request qs1 = map redact_request qs2"
  shows "map redact_request (take n qs1 @ drop (Suc n) qs1) =
         map redact_request (take n qs2 @ drop (Suc n) qs2)"
  using assms by (simp add: take_map [symmetric] drop_map [symmetric])

lemma enabled_same:
  assumes "same_but_code_state d1 d2"
  shows "enabled d1 e = enabled d2 e"
proof (cases e)
  case (Answer n a)
  from assms have m: "map redact_request (pending d1) = map redact_request (pending d2)"
    by (simp add: same_but_code_state_def redact_dialog_eq_iff)
  then have l: "length (pending d1) = length (pending d2)" by (rule map_eq_imp_length_eq)
  have "answers (pending d1 ! n) a = answers (pending d2 ! n) a" if "n < length (pending d1)"
    using redacted_nth [OF m that]
    by (auto simp: answers_def redact_request_def split: pending_call.splits answer.splits)
  with l show ?thesis using Answer by (auto simp: enabled_def)
next
  case OpenDialog then show ?thesis by (simp add: enabled_def)
next
  case RunEffect then show ?thesis by (simp add: enabled_def)
next
  case (TypeCode raw)
  then show ?thesis using assms
    by (auto simp: enabled_def same_but_code_state_def redact_dialog_eq_iff renderContent_def
        split: option.splits)
next
  case ClickVerify
  then show ?thesis using assms
    by (auto simp: enabled_def same_but_code_state_def redact_dialog_eq_iff renderFooter_def)
next
  case ClickCancel
  then show ?thesis using assms
    by (auto simp: enabled_def same_but_code_state_def redact_dialog_eq_iff renderFooter_def)
next
  case ClickSaved
  then show ?thesis using assms
    by (auto simp: enabled_def same_but_code_state_def redact_dialog_eq_iff renderFooter_def)
next
  case ClickClose
  then show ?thesis using assms
    by (auto simp: enabled_def same_but_code_state_def redact_dialog_eq_iff renderFooter_def)
next
  case Dismiss
  then show ?thesis using assms
    by (auto simp: enabled_def same_but_code_state_def redact_dialog_eq_iff)
qed

lemma resume_same:
  assumes s: "same_but_code_state d1 d2" and n: "n < length (pending d1)"
  shows "same_but_code_state (resume d1 n a) (resume d2 n a)"
proof -
  from s have m: "map redact_request (pending d1) = map redact_request (pending d2)"
    by (simp add: same_but_code_state_def redact_dialog_eq_iff)
  note r = redacted_remove [OF m, of n]
  note q = redacted_nth [OF m n]
  show ?thesis
  proof (cases "pending d1 ! n")
    case EnrollRequest
    with q have "pending d2 ! n = EnrollRequest"
      by (auto simp: redact_request_def split: pending_call.splits)
    with EnrollRequest s r show ?thesis
      by (cases a)
        (auto simp: same_but_code_state_def redact_dialog_eq_iff resume_def enrollTotp_resume_def
          Let_def split: sum.splits)
  next
    case (VerifyRequest fid c1)
    with q obtain c2 where "pending d2 ! n = VerifyRequest fid c2"
      by (auto simp: redact_request_def split: pending_call.splits)
    with VerifyRequest s r show ?thesis
      by (cases a)
        (auto simp: same_but_code_state_def redact_dialog_eq_iff resume_def
          handleVerifyCode_resume_def verify_failed_def Let_def
          split: option.splits sum.splits awaited.splits list.splits reply.splits)
  qed
qed

lemma fire_same:
  assumes s: "same_but_code_state d1 d2" and e: "same_but_code e1 e2"
  shows "same_but_code_state (fire d1 e1) (fire d2 e2)"
proof (cases "e1 = e2")
  case True
  note en = enabled_same [OF s, of e2]
  show ?thesis
  proof (cases "enabled d1 e2")
    case False
    with en True s show ?thesis by (simp add: fire_def)
  next
    case on: True
    show ?thesis
    proof (cases e2)
      case (Answer n a)
      with on have "n < length (pending d1)" by (simp add: enabled_def)
      from resume_same [OF s this] Answer True on en show ?thesis by (simp add: fire_def)
    next
      case OpenDialog
      with True on en s show ?thesis
        by (auto simp: fire_def same_but_code_state_def redact_dialog_eq_iff)
    next
      case RunEffect
      with True on en s show ?thesis
        by (auto simp: fire_def same_but_code_state_def redact_dialog_eq_iff enroll_effect_def
            resetDialogState_def redact_request_def)
    next
      case (TypeCode raw)
      with True on en s show ?thesis
        by (auto simp: fire_def same_but_code_state_def redact_dialog_eq_iff
            set_verificationCode_def)
    next
      case ClickVerify
      with True on en s show ?thesis
        by (auto simp: fire_def same_but_code_state_def redact_dialog_eq_iff
            handleVerifyCode_start_def redact_request_def split: option.splits)
    next
      case ClickCancel
      with True on en s show ?thesis
        by (auto simp: fire_def same_but_code_state_def redact_dialog_eq_iff cancel_click_def
            dialog_onOpenChange_def resetDialogState_def)
    next
      case ClickSaved
      with True on en s show ?thesis
        by (auto simp: fire_def same_but_code_state_def redact_dialog_eq_iff
            handleRecoveryCodesSaved_def)
    next
      case ClickClose
      with True on en s show ?thesis
        by (auto simp: fire_def same_but_code_state_def redact_dialog_eq_iff close_click_def
            resetDialogState_def)
    next
      case Dismiss
      with True on en s show ?thesis
        by (auto simp: fire_def same_but_code_state_def redact_dialog_eq_iff
            dialog_onOpenChange_def resetDialogState_def)
    qed
  qed
next
  case False
  with e obtain raw1 raw2 where t: "e1 = TypeCode raw1" "e2 = TypeCode raw2"
    and l: "length (filter (\<lambda>c. \<not> js_space c) raw1) = 6"
      "length (filter (\<lambda>c. \<not> js_space c) raw2) = 6"
    by (auto simp: same_but_code_def setup_code_shape_def split: event.splits)
  have "enabled d1 (TypeCode raw1) = enabled d1 (TypeCode raw2)" by (simp add: enabled_def)
  also have "\<dots> = enabled d2 (TypeCode raw2)" by (rule enabled_same [OF s])
  finally show ?thesis using t l s
    by (auto simp: fire_def same_but_code_state_def redact_dialog_eq_iff set_verificationCode_def)
qed

lemma foldl_fire_same:
  assumes "list_all2 same_but_code es1 es2" and "same_but_code_state d1 d2"
  shows "same_but_code_state (foldl fire d1 es1) (foldl fire d2 es2)"
  using assms
proof (induction es1 es2 arbitrary: d1 d2 rule: list_all2_induct)
  case Nil
  then show ?case by simp
next
  case (Cons e1 es1 e2 es2)
  from fire_same [OF Cons.prems Cons.hyps(1)] show ?case by (simp add: Cons.IH)
qed

lemma run_same:
  assumes "list_all2 same_but_code es1 es2"
  shows "redact_dialog (run es1) = redact_dialog (run es2)"
proof -
  have "same_but_code_state initial_dialog initial_dialog" by (simp add: same_but_code_state_def)
  from foldl_fire_same [OF assms this] show ?thesis by (simp add: run_def same_but_code_state_def)
qed

lemma handleDisableTotp_blind:
  assumes "trim c1 \<noteq> []" and "trim c2 \<noteq> []"
  shows "observe_disable (handleDisableTotp (p\<lparr> totpCodeForDisable := c1 \<rparr>) env) =
         observe_disable (handleDisableTotp (p\<lparr> totpCodeForDisable := c2 \<rparr>) env)"
  using assms
  by (auto simp: observe_disable_def handleDisableTotp_def redact_def Let_def
      split: option.splits sum.splits awaited.splits list.splits reply.splits)

lemma dropWhile_all_iff: "(\<forall>x\<in>set (dropWhile P xs). P x) \<longleftrightarrow> dropWhile P xs = []"
proof
  assume all: "\<forall>x\<in>set (dropWhile P xs). P x"
  show "dropWhile P xs = []"
  proof (rule ccontr)
    assume ne: "dropWhile P xs \<noteq> []"
    then have "\<not> P (hd (dropWhile P xs))" by (rule hd_dropWhile)
    moreover from ne have "hd (dropWhile P xs) \<in> set (dropWhile P xs)" by simp
    ultimately show False using all by blast
  qed
next
  assume e: "dropWhile P xs = []"
  show "\<forall>x\<in>set (dropWhile P xs). P x" unfolding e by simp
qed

lemma trim_empty_iff: "trim c = [] \<longleftrightarrow> (\<forall>x\<in>set c. js_space x)"
proof -
  have "trim c = [] \<longleftrightarrow> (\<forall>x\<in>set (dropWhile js_space c). js_space x)"
    by (simp add: trim_def)
  also have "\<dots> \<longleftrightarrow> dropWhile js_space c = []"
    by (rule dropWhile_all_iff)
  also have "\<dots> \<longleftrightarrow> (\<forall>x\<in>set c. js_space x)"
    by simp
  finally show ?thesis .
qed

lemma digit_not_space: "is_digit x \<Longrightarrow> \<not> js_space x"
  by (cases x) (auto simp: is_digit_def js_space_def)

lemma digits_trim_empty_iff:
  assumes "at_most_6_digits c"
  shows "trim c = [] \<longleftrightarrow> c = []"
proof
  assume t: "trim c = []"
  show "c = []"
  proof (cases c)
    case (Cons x xs)
    with assms have "is_digit x" by (simp add: at_most_6_digits_def)
    then have "\<not> js_space x" by (rule digit_not_space)
    with Cons t show ?thesis by (auto simp: trim_empty_iff)
  qed simp
next
  assume "c = []"
  then show "trim c = []" by (simp add: trim_def)
qed

lemma stored_disable_code: "at_most_6_digits (totpCodeForDisable (set_totpCodeForDisable p raw))"
  by (auto simp: set_totpCodeForDisable_def at_most_6_digits_def list_all_iff dest: in_set_takeD)

lemma stored_setup_code: "\<forall>c\<in>set (verificationCode (set_verificationCode d raw)). \<not> js_space c"
  by (simp add: set_verificationCode_def)

text \<open>
  C7, as amended. The handlers never look into the entered code beyond its shape. In the
  setup dialog, two runs of the same events that differ only in the codes typed, each of
  six characters once its white space is stripped, and so with the same replies to every
  call, end in the same state, the code apart. The guard of \<open>handleVerifyCode\<close> asks
  only for a \<open>factorId\<close> and a code of six characters; from states that agree apart
  from the code, the handler makes the same calls and leaves the same state up to its
  first \<open>await\<close>, and under the same replies to \<open>challenge\<close>, \<open>verify\<close>, the RPC and the
  refresh it does so after it, whatever the code it passes on. On the profile page the
  button that calls \<open>handleDisableTotp\<close> can be used with every code of one to six
  digits, and with the empty code never; two such clicks under the same replies to
  \<open>listFactors\<close>, \<open>challengeAndVerify\<close>, \<open>unenroll\<close>, the RPC and the refresh make
  the same calls and leave the same page, the code apart.
\<close>

theorem entered_code_never_inspected:
  "(list_all2 same_but_code es1 es2 \<longrightarrow> redact_dialog (run es1) = redact_dialog (run es2)) \<and>
   (snd (handleVerifyCode_start d) = [] \<longleftrightarrow>
      \<not> (truthy (factorId d) \<and> setup_code_shape (verificationCode d))) \<and>
   (redact_dialog d1 = redact_dialog d2 \<and>
    setup_code_shape (verificationCode d1) \<and> setup_code_shape (verificationCode d2) \<longrightarrow>
      observe_setup (handleVerifyCode_start d1) = observe_setup (handleVerifyCode_start d2)) \<and>
   (redact_dialog d1 = redact_dialog d2 \<longrightarrow>
      observe_setup (handleVerifyCode_resume d1 fid code1 env) =
      observe_setup (handleVerifyCode_resume d2 fid code2 env)) \<and>
   (at_most_6_digits c \<longrightarrow>
      (click_disable (p\<lparr> totpCodeForDisable := c \<rparr>) denv = None \<longleftrightarrow>
         isDisablingTotp p \<or> c = [])) \<and>
   (at_most_6_digits c1 \<and> at_most_6_digits c2 \<and>
    click_disable (p\<lparr> totpCodeForDisable := c1 \<rparr>) denv = Some r1 \<and>
    click_disable (p\<lparr> totpCodeForDisable := c2 \<rparr>) denv = Some r2 \<longrightarrow>
      observe_disable r1 = observe_disable r2)"
proof (intro conjI impI)
  assume "list_all2 same_but_code es1 es2"
  then show "redact_dialog (run es1) = redact_dialog (run es2)" by (rule run_same)
next
  show "snd (handleVerifyCode_start d) = [] \<longleftrightarrow>
      \<not> (truthy (factorId d) \<and> setup_code_shape (verificationCode d))"
    by (rule handleVerifyCode_start_guard)
next
  assume "redact_dialog d1 = redact_dialog d2 \<and>
    setup_code_shape (verificationCode d1) \<and> setup_code_shape (verificationCode d2)"
  then show "observe_setup (handleVerifyCode_start d1) = observe_setup (handleVerifyCode_start d2)"
    by (intro handleVerifyCode_start_blind) (simp_all add: setup_code_shape_def)
next
  assume "redact_dialog d1 = redact_dialog d2"
  then show "observe_setup (handleVerifyCode_resume d1 fid code1 env) =
      observe_setup (handleVerifyCode_resume d2 fid code2 env)"
    by (rule handleVerifyCode_resume_blind)
next
  assume "at_most_6_digits c"
  then show "click_disable (p\<lparr> totpCodeForDisable := c \<rparr>) denv = None \<longleftrightarrow>
      isDisablingTotp p \<or> c = []"
    by (simp add: click_disable_def disable_button_disabled_def digits_trim_empty_iff)
next
  assume a: "at_most_6_digits c1 \<and> at_most_6_digits c2 \<and>
    click_disable (p\<lparr> totpCodeForDisable := c1 \<rparr>) denv = Some r1 \<and>
    click_disable (p\<lparr> totpCodeForDisable := c2 \<rparr>) denv = Some r2"
  then have t: "trim c1 \<noteq> []" "trim c2 \<noteq> []"
    by (auto simp: click_disable_def disable_button_disabled_def split: if_splits)
  from a have "r1 = handleDisableTotp (p\<lparr> totpCodeForDisable := c1 \<rparr>) denv"
    "r2 = handleDisableTotp (p\<lparr> totpCodeForDisable := c2 \<rparr>) denv"
    by (auto simp: click_disable_def split: if_splits)
  with handleDisableTotp_blind [OF t] show "observe_disable r1 = observe_disable r2" by simp
qed

text \<open>The theorem at two runs of the dialog and at two clicks on the profile page.\<close>

theorem entered_code_never_inspected_witness:
  "list_all2 same_but_code setup_events other_code_events \<and>
   redact_dialog (run setup_events) = redact_dialog (run other_code_events) \<and>
   verificationCode (run (take 4 setup_events)) = ''123456'' \<and>
   verificationCode (run (take 4 other_code_events)) = ''000000'' \<and>
   observe_setup (handleVerifyCode_start (run (take 4 setup_events))) =
   observe_setup (handleVerifyCode_start (run (take 4 other_code_events))) \<and>
   observe_setup (handleVerifyCode_resume (run (take 5 setup_events)) ''f1'' ''123456''
       (sample_verify_env codes_reply)) =
   observe_setup (handleVerifyCode_resume (run (take 5 other_code_events)) ''f1'' ''000000''
       (sample_verify_env codes_reply)) \<and>
   at_most_6_digits ''123456'' \<and> at_most_6_digits ''7'' \<and> at_most_6_digits '''' \<and>
   click_disable (disable_page '''') sample_disable_env = None \<and>
   click_disable (disable_page ''7'') sample_disable_env =
     Some (disable_page '''',
       [MfaListFactors, MfaChallengeAndVerify ''f1'' ''7'', MfaUnenroll ''f1'',
        RpcSetTotpEnabled False, ShowToast ToastDisabled, RefreshCurrentUserProfile]) \<and>
   observe_disable (handleDisableTotp (disable_page ''123456'') sample_disable_env) =
   observe_disable (handleDisableTotp (disable_page ''7'') sample_disable_env)"
proof -
  have l: "list_all2 same_but_code setup_events other_code_events"
    by (simp add: setup_events_def verify_clicked_def other_code_events_def same_but_code_def
        setup_code_shape_def js_space_def)
  have s4: "run (take 4 setup_events) =
      \<lparr> isOpen = True, isLoading = False, error = None, factorId = Some ''f1'',
        qrCodeSvg = Some ''<svg/>'', secretKey = Some ''JBSWY3DP'', verificationCode = ''123456'',
        step = Verify, recoveryCodes = [], pending = [] \<rparr>"
    by (simp add: run_def setup_events_def verify_clicked_def initial_dialog_def dialog_defs sample_defs)
  have o4: "run (take 4 other_code_events) =
      \<lparr> isOpen = True, isLoading = False, error = None, factorId = Some ''f1'',
        qrCodeSvg = Some ''<svg/>'', secretKey = Some ''JBSWY3DP'', verificationCode = ''000000'',
        step = Verify, recoveryCodes = [], pending = [] \<rparr>"
    by (simp add: run_def other_code_events_def initial_dialog_def dialog_defs sample_defs)
  have s5: "run (take 5 setup_events) =
      \<lparr> isOpen = True, isLoading = True, error = None, factorId = Some ''f1'',
        qrCodeSvg = Some ''<svg/>'', secretKey = Some ''JBSWY3DP'', verificationCode = ''123456'',
        step = Verify, recoveryCodes = [], pending = [VerifyRequest ''f1'' ''123456''] \<rparr>"
    by (simp add: run_def setup_events_def verify_clicked_def initial_dialog_def dialog_defs sample_defs)
  have o5: "run (take 5 other_code_events) =
      \<lparr> isOpen = True, isLoading = True, error = None, factorId = Some ''f1'',
        qrCodeSvg = Some ''<svg/>'', secretKey = Some ''JBSWY3DP'', verificationCode = ''000000'',
        step = Verify, recoveryCodes = [], pending = [VerifyRequest ''f1'' ''000000''] \<rparr>"
    by (simp add: run_def other_code_events_def initial_dialog_def dialog_defs sample_defs)
  have r4: "redact_dialog (run (take 4 setup_events)) = redact_dialog (run (take 4 other_code_events))"
    by (simp add: s4 o4 redact_dialog_def)
  have r5: "redact_dialog (run (take 5 setup_events)) = redact_dialog (run (take 5 other_code_events))"
    by (simp add: s5 o5 redact_dialog_def redact_request_def)
  have d: "at_most_6_digits ''123456''" "at_most_6_digits ''7''" "at_most_6_digits ''''"
    by (simp_all add: at_most_6_digits_def is_digit_def)
  have c0: "click_disable (disable_page '''') sample_disable_env = None"
    by (simp add: click_disable_def disable_button_disabled_def disable_page_def trim_def)
  have c7: "click_disable (disable_page ''7'') sample_disable_env =
     Some (disable_page '''',
       [MfaListFactors, MfaChallengeAndVerify ''f1'' ''7'', MfaUnenroll ''f1'',
        RpcSetTotpEnabled False, ShowToast ToastDisabled, RefreshCurrentUserProfile])"
    by (simp add: click_disable_def disable_button_disabled_def disable_page_def trim_def
        js_space_def handleDisableTotp_def sample_disable_env_def settle_def Let_def)
  have c6: "click_disable (disable_page ''123456'') sample_disable_env =
     Some (handleDisableTotp (disable_page ''123456'') sample_disable_env)"
    by (simp add: click_disable_def disable_button_disabled_def disable_page_def trim_def
        js_space_def)
  have c7h: "click_disable (disable_page ''7'') sample_disable_env =
     Some (handleDisableTotp (disable_page ''7'') sample_disable_env)"
    by (simp add: click_disable_def disable_button_disabled_def disable_page_def trim_def
        js_space_def)
  have p: "disable_page c = (disable_page [])\<lparr> totpCodeForDisable := c \<rparr>" for c
    by (simp add: disable_page_def)
  from entered_code_never_inspected [where ?es1.0 = setup_events and ?es2.0 = other_code_events
      and d = "run (take 4 setup_events)"
      and ?d1.0 = "run (take 4 setup_events)" and ?d2.0 = "run (take 4 other_code_events)"
      and ?c1.0 = "''123456''" and ?c2.0 = "''7''" and c = "''''"
      and p = "disable_page ''''" and denv = sample_disable_env
      and ?r1.0 = "handleDisableTotp (disable_page ''123456'') sample_disable_env"
      and ?r2.0 = "handleDisableTotp (disable_page ''7'') sample_disable_env"]
    entered_code_never_inspected [where ?d1.0 = "run (take 5 setup_events)"
      and ?d2.0 = "run (take 5 other_code_events)"]
  show ?thesis
    using l r4 r5 d c0 c7 c6 c7h
    by (simp add: p [symmetric] s4 o4 setup_code_shape_def)
qed

text \<open>
  The claim as stated fails where it asks only for the same replies to \<open>challenge\<close> and
  \<open>verify\<close>. In the setup dialog, the same code and the same replies to \<open>challenge\<close> and
  \<open>verify\<close>, with an error from the RPC \<open>set_totp_enabled\<close> in one run only, give one
  notification more in that run. On the profile page, the same code and the same reply to
  \<open>challengeAndVerify\<close>, with an error from \<open>unenroll\<close> in one run only, give a run that
  never calls the RPC.
\<close>

theorem other_replies_change_the_outcome:
  "challenge_reply rpc_error_env = challenge_reply (sample_verify_env codes_reply) \<and>
   verify_reply rpc_error_env = verify_reply (sample_verify_env codes_reply) \<and>
   snd (handleVerifyCode_resume (run verify_clicked) ''f1'' ''123456'' (sample_verify_env codes_reply)) =
     [MfaVerify ''f1'' ''c1'' ''123456'', RpcSetTotpEnabled True, RefreshCurrentUserProfile] \<and>
   snd (handleVerifyCode_resume (run verify_clicked) ''f1'' ''123456'' rpc_error_env) =
     [MfaVerify ''f1'' ''c1'' ''123456'', RpcSetTotpEnabled True, ShowToast ToastPartialEnable,
      RefreshCurrentUserProfile] \<and>
   observe_setup (handleVerifyCode_resume (run verify_clicked) ''f1'' ''123456'' rpc_error_env) \<noteq>
   observe_setup (handleVerifyCode_resume (run verify_clicked) ''f1'' ''123456''
     (sample_verify_env codes_reply)) \<and>
   at_most_6_digits ''123456'' \<and>
   challengeAndVerify_reply unenroll_error_env = challengeAndVerify_reply sample_disable_env \<and>
   click_disable (disable_page ''123456'') sample_disable_env =
     Some (disable_page '''',
       [MfaListFactors, MfaChallengeAndVerify ''f1'' ''123456'', MfaUnenroll ''f1'',
        RpcSetTotpEnabled False, ShowToast ToastDisabled, RefreshCurrentUserProfile]) \<and>
   click_disable (disable_page ''123456'') unenroll_error_env =
     Some (disable_page '''',
       [MfaListFactors, MfaChallengeAndVerify ''f1'' ''123456'', MfaUnenroll ''f1'',
        ShowToast ToastSecurity])"
  by (simp add: run_verify_clicked rpc_error_env_def unenroll_error_env_def sample_defs handleVerifyCode_resume_def
      verify_failed_def codes_of_def settle_def observe_setup_def redact_def Let_def
      at_most_6_digits_def is_digit_def click_disable_def disable_button_disabled_def
      disable_page_def trim_def js_space_def handleDisableTotp_def sample_disable_env_def
      disable_catch_def js_includes_def no_error_def)
section \<open>The \<open>create-user\<close> function is not atomic\<close>

lemma respond_error_body: "\<exists>e. resp_body (respond s (BodyError x)) = BodyError e"
  by (simp add: respond_def)

lemma profile_error_response_is_error: "\<exists>e. resp_body (profile_error_response err) = BodyError e"
  unfolding profile_error_response_def
  by (simp add: respond_error_body split: option.split)

lemma profile_error_response_23505:
  "err_code err = Some ''23505'' \<Longrightarrow> resp_status (profile_error_response err) = 409"
  by (simp add: profile_error_response_def respond_def truthy_def)

text \<open>
  C8. On a well-formed request, when \<open>createUser\<close> answers with the new user and the
  update of the profile then fails, the function has called \<open>createUser\<close> first and the
  profile update last, makes no further call, answers with an error body (status 409
  for the code 23505 of a unique violation) and leaves the new account in the auth
  service.
\<close>

theorem create_user_keeps_account_on_profile_error:
  assumes cfg: "configured" and post: "req_method req \<noteq> ''OPTIONS''"
    and payload: "req_json req =
        Some \<lparr> payload_email = Some e, payload_password = Some pw, payload_full_name = Some fn,
          payload_username = Some un, payload_role = Some rl \<rparr>"
    and filled: "e \<noteq> []" "pw \<noteq> []" "fn \<noteq> []" "un \<noteq> []" "rl \<noteq> []"
    and created: "createUser_reply env = Resolved (Data (Some newUserId))"
    and confirmed: "updateUserById_reply env = Resolved u"
    and failed: "profile_update_reply env = Resolved (Error profileError)"
  shows "create_user configured req env auth_users =
           (profile_error_response profileError,
            [AuthCreateUser e pw, AuthUpdateUserById newUserId, ProfilesUpdate newUserId fn un rl],
            auth_users @ [newUserId]) \<and>
         (\<exists>x. resp_body (profile_error_response profileError) = BodyError x) \<and>
         (err_code profileError = Some ''23505'' \<longrightarrow>
            resp_status (profile_error_response profileError) = 409)"
proof -
  have "create_user configured req env auth_users =
           (profile_error_response profileError,
            [AuthCreateUser e pw, AuthUpdateUserById newUserId, ProfilesUpdate newUserId fn un rl],
            auth_users @ [newUserId])"
    using assms by (simp add: create_user_def Let_def)
  then show ?thesis
    using profile_error_response_is_error [of profileError] profile_error_response_23505 [of profileError]
    by blast
qed

text \<open>The theorem for a duplicate username: the response is 409 and the account \<open>u9\<close>
  exists afterwards.\<close>

theorem create_user_keeps_account_on_profile_error_witness:
  "create_user True new_user_request duplicate_username_env [''u1'', ''u2''] =
     (\<lparr> resp_status = 409, resp_body = BodyError ErrUsernameTaken \<rparr>,
      [AuthCreateUser ''dave@example.org'' ''secret123'', AuthUpdateUserById ''u9'',
       ProfilesUpdate ''u9'' ''Dave'' ''bob'' ''user''],
      [''u1'', ''u2'', ''u9''])"
proof -
  have r: "profile_error_response duplicate_username_error =
      \<lparr> resp_status = 409, resp_body = BodyError ErrUsernameTaken \<rparr>"
    by (simp add: profile_error_response_def duplicate_username_error_def respond_def truthy_def
        lower_includes_def js_includes_def lower_def lower_char_def)
  from create_user_keeps_account_on_profile_error
    [of True new_user_request "''dave@example.org''" "''secret123''" "''Dave''" "''bob''" "''user''"
      duplicate_username_env "''u9''" "Data ()" duplicate_username_error "[''u1'', ''u2'']"]
  show ?thesis
    by (simp add: new_user_request_def duplicate_username_env_def r)
qed

end
